theory Spec2Isabelle
  imports Complex_Main "HOL-Library.Word" "HOL-Library.Log_Nat"
begin

unbundle bit_operations_syntax

section \<open>Common types\<close>

type_synonym u8 = "8 word"
type_synonym u16 = "16 word"
type_synonym u32 = "32 word"
type_synonym u64 = "64 word"

text \<open>The \<^verbatim>\<open>esp_err_t\<close> codes that the modelled functions return.\<close>

datatype esp_err =
    ESP_OK
  | ESP_FAIL
  | ESP_ERR_NO_MEM
  | ESP_ERR_INVALID_ARG
  | ESP_ERR_INVALID_STATE
  | ESP_ERR_INVALID_SIZE
  | ESP_ERR_NOT_FOUND
  | ESP_ERR_NOT_SUPPORTED

section \<open>The stdio stream\<close>

text \<open>
  A \<^verbatim>\<open>FILE *\<close> opened with mode "rb": the bytes of the file, the read position and
  the end-of-file indicator.  The firmware is built for the ESP32 (PlatformIO board
  \<^verbatim>\<open>esp32dev\<close>), an ILP32 target, so a \<^verbatim>\<open>long\<close> offset is
  32 bits wide and a \<^verbatim>\<open>uint32_t\<close> passed to \<^verbatim>\<open>fseek\<close> is reinterpreted as signed
  (\<open>sint\<close>).  A seek to a negative position fails and leaves the stream as it was; a
  seek beyond the end is allowed and clears the end-of-file indicator.
\<close>

record stream =
  bytes :: "u8 list"
  pos :: nat
  eof :: bool

definition fopen :: "(string \<Rightarrow> u8 list option) \<Rightarrow> string \<Rightarrow> stream option" where
  "fopen fs path =
     (case fs path of
        None \<Rightarrow> None
      | Some bs \<Rightarrow> Some \<lparr>bytes = bs, pos = 0, eof = False\<rparr>)"

definition feof :: "stream \<Rightarrow> bool" where
  "feof f = eof f"

definition ftell :: "stream \<Rightarrow> nat" where
  "ftell f = pos f"

text \<open>\<^verbatim>\<open>fread(buf, 1, n, f)\<close>: the bytes delivered and the stream afterwards.  A short read
  sets the end-of-file indicator.\<close>

definition fread :: "stream \<Rightarrow> nat \<Rightarrow> u8 list \<times> stream" where
  "fread f n =
     (let got = take n (drop (pos f) (bytes f))
      in (got, f\<lparr>pos := pos f + length got, eof := (eof f \<or> length got < n)\<rparr>))"

definition fseek_cur :: "stream \<Rightarrow> int \<Rightarrow> stream" where
  "fseek_cur f off =
     (if int (pos f) + off < 0 then f
      else f\<lparr>pos := nat (int (pos f) + off), eof := False\<rparr>)"

definition fseek_set :: "stream \<Rightarrow> int \<Rightarrow> stream" where
  "fseek_set f off =
     (if off < 0 then f else f\<lparr>pos := nat off, eof := False\<rparr>)"

text \<open>\<^verbatim>\<open>buf[0] | (buf[1] << 8) | (buf[2] << 16) | (buf[3] << 24)\<close>\<close>

definition le32 :: "u8 list \<Rightarrow> u32" where
  "le32 buf =
     (ucast (buf ! 0) OR push_bit 8 (ucast (buf ! 1))
        OR push_bit 16 (ucast (buf ! 2)) OR push_bit 24 (ucast (buf ! 3)))"

definition le16 :: "u8 list \<Rightarrow> u16" where
  "le16 buf = (ucast (buf ! 0) OR push_bit 8 (ucast (buf ! 1)))"

definition read_le32 :: "stream \<Rightarrow> u32 \<times> stream" where
  "read_le32 f =
     (let (buf, f') = fread f 4
      in (if length buf \<noteq> 4 then 0 else le32 buf, f'))"

definition read_le16 :: "stream \<Rightarrow> u16 \<times> stream" where
  "read_le16 f =
     (let (buf, f') = fread f 2
      in (if length buf \<noteq> 2 then 0 else le16 buf, f'))"

definition read_fourcc :: "stream \<Rightarrow> u32 \<times> stream" where
  "read_fourcc f = read_le32 f"

section \<open>AVI container parser\<close>

definition FOURCC_RIFF :: u32 where "FOURCC_RIFF = 0x46464952"
definition FOURCC_AVI :: u32 where "FOURCC_AVI = 0x20495641"
definition FOURCC_LIST :: u32 where "FOURCC_LIST = 0x5453494C"
definition FOURCC_MOVI :: u32 where "FOURCC_MOVI = 0x69766F6D"
definition FOURCC_AVIH :: u32 where "FOURCC_AVIH = 0x68697661"
definition FOURCC_STRH :: u32 where "FOURCC_STRH = 0x68727473"
definition FOURCC_STRF :: u32 where "FOURCC_STRF = 0x66727473"
definition FOURCC_VIDS :: u32 where "FOURCC_VIDS = 0x73646976"
definition FOURCC_AUDS :: u32 where "FOURCC_AUDS = 0x73647561"

record avi_main_header =
  micro_sec_per_frame :: u32
  max_bytes_per_sec :: u32
  total_frames :: u32
  streams :: u32
  suggested_buffer_size :: u32
  width :: u32
  height :: u32

record avi_video_info =
  width :: u16
  height :: u16
  bit_count :: u16
  compression :: u32
  found :: bool

record avi_audio_info =
  format_tag :: u16
  channels :: u16
  samples_per_sec :: u32
  avg_bytes_per_sec :: u32
  block_align :: u16
  bits_per_sample :: u16
  found :: bool

text \<open>The parser handle.  \<open>file_ptr = None\<close> (the field \<^verbatim>\<open>file\<close>) is the NULL \<^verbatim>\<open>FILE *\<close>.\<close>

record avi_parser =
  file_ptr :: "stream option"
  main_header :: avi_main_header
  video_info :: avi_video_info
  audio_info :: avi_audio_info
  movi_offset :: u32
  movi_size :: u32
  current_frame :: u32
  total_frames :: u32
  initialized :: bool

text \<open>\<^verbatim>\<open>memset(parser, 0, sizeof(avi_parser_t))\<close>\<close>

definition zero_parser :: avi_parser where
  "zero_parser =
     \<lparr>file_ptr = None,
      main_header = \<lparr>micro_sec_per_frame = 0, max_bytes_per_sec = 0,
                     avi_main_header.total_frames = 0, streams = 0,
                     suggested_buffer_size = 0, avi_main_header.width = 0,
                     avi_main_header.height = 0\<rparr>,
      video_info = \<lparr>avi_video_info.width = 0, avi_video_info.height = 0, bit_count = 0,
                    compression = 0, avi_video_info.found = False\<rparr>,
      audio_info = \<lparr>format_tag = 0, channels = 0, samples_per_sec = 0,
                    avg_bytes_per_sec = 0, block_align = 0, bits_per_sample = 0,
                    avi_audio_info.found = False\<rparr>,
      movi_offset = 0, movi_size = 0, current_frame = 0,
      avi_parser.total_frames = 0, initialized = False\<rparr>"

text \<open>
  The header routines below run while \<^verbatim>\<open>parser->file\<close> is the open stream.  The model
  threads that stream as a separate argument and result next to the parser record;
  \<open>avi_parser_open\<close> stores it into the \<open>file_ptr\<close> field when parsing has finished.
  \<^verbatim>\<open>long remaining = size - N\<close> is computed in \<^verbatim>\<open>uint32_t\<close> and read back as a signed
  32-bit \<^verbatim>\<open>long\<close>.
\<close>

definition parse_avih :: "avi_parser \<Rightarrow> stream \<Rightarrow> u32 \<Rightarrow> avi_parser \<times> stream" where
  "parse_avih p f sz =
     (let (usec, f1) = read_le32 f;
          (maxb, f2) = read_le32 f1;
          f3 = fseek_cur f2 4;
          f4 = fseek_cur f3 4;
          (tf, f5) = read_le32 f4;
          f6 = fseek_cur f5 4;
          (st, f7) = read_le32 f6;
          (sb, f8) = read_le32 f7;
          (w, f9) = read_le32 f8;
          (h, f10) = read_le32 f9;
          p' = p\<lparr>main_header :=
                   \<lparr>micro_sec_per_frame = usec, max_bytes_per_sec = maxb,
                    avi_main_header.total_frames = tf, streams = st,
                    suggested_buffer_size = sb, avi_main_header.width = w,
                    avi_main_header.height = h\<rparr>,
                 avi_parser.total_frames := tf\<rparr>;
          remaining = sint (sz - 48)
      in (p', if remaining > 0 then fseek_cur f10 remaining else f10))"

definition parse_strh :: "avi_parser \<Rightarrow> stream \<Rightarrow> u32 \<Rightarrow> avi_parser \<times> stream" where
  "parse_strh p f sz =
     (let (fourcc_type, f1) = read_fourcc f;
          (fourcc_handler, f2) = read_fourcc f1;
          f3 = fseek_cur f2 4;
          f4 = fseek_cur f3 2;
          f5 = fseek_cur f4 2;
          f6 = fseek_cur f5 4;
          (scale, f7) = read_le32 f6;
          (rate, f8) = read_le32 f7;
          (start, f9) = read_le32 f8;
          (len, f10) = read_le32 f9;
          (sb, f11) = read_le32 f10;
          (quality, f12) = read_le32 f11;
          (sample_size, f13) = read_le32 f12;
          p' = (if fourcc_type = FOURCC_VIDS then p
                else if fourcc_type = FOURCC_AUDS
                then p\<lparr>audio_info := (audio_info p)\<lparr>avi_audio_info.found := True\<rparr>\<rparr>
                else p);
          remaining = sint (sz - 48)
      in (p', if remaining > 0 then fseek_cur f13 remaining else f13))"

definition parse_strf_video :: "avi_parser \<Rightarrow> stream \<Rightarrow> u32 \<Rightarrow> avi_parser \<times> stream" where
  "parse_strf_video p f sz =
     (let f1 = fseek_cur f 4;
          (w, f2) = read_le32 f1;
          (h, f3) = read_le32 f2;
          f4 = fseek_cur f3 2;
          (bc, f5) = read_le16 f4;
          (comp, f6) = read_fourcc f5;
          p' = p\<lparr>video_info :=
                   \<lparr>avi_video_info.width = ucast w, avi_video_info.height = ucast h,
                    bit_count = bc, compression = comp, avi_video_info.found = True\<rparr>\<rparr>;
          remaining = sint (sz - 20)
      in (p', if remaining > 0 then fseek_cur f6 remaining else f6))"

definition parse_strf_audio :: "avi_parser \<Rightarrow> stream \<Rightarrow> u32 \<Rightarrow> avi_parser \<times> stream" where
  "parse_strf_audio p f sz =
     (let (ft, f1) = read_le16 f;
          (ch, f2) = read_le16 f1;
          (sps, f3) = read_le32 f2;
          (abps, f4) = read_le32 f3;
          (ba, f5) = read_le16 f4;
          (bps, f6) = read_le16 f5;
          p' = p\<lparr>audio_info :=
                   (audio_info p)\<lparr>format_tag := ft, channels := ch, samples_per_sec := sps,
                                  avg_bytes_per_sec := abps, block_align := ba,
                                  bits_per_sample := bps\<rparr>\<rparr>;
          remaining = sint (sz - 16)
      in (p', if remaining > 0 then fseek_cur f6 remaining else f6))"

text \<open>The padding byte after an odd-sized chunk: \<^verbatim>\<open>if (size & 1) fseek(f, 1, SEEK_CUR)\<close>.\<close>

definition skip_pad :: "stream \<Rightarrow> u32 \<Rightarrow> stream" where
  "skip_pad f sz = (if sz AND 1 \<noteq> 0 then fseek_cur f 1 else f)"

text \<open>
  \<^verbatim>\<open>parse_list\<close> recurses into nested lists and loops over the chunks of a list.  A crafted
  size (for instance one that is negative as a \<^verbatim>\<open>long\<close>) can make the loop revisit the
  same bytes for ever, so both are defined with a bound on the number of steps:
  \<open>None\<close> means that the bound was reached.  Both always return \<^verbatim>\<open>ESP_OK\<close>, which no
  caller inspects; the model returns the parser and the stream only.
\<close>

fun parse_list :: "nat \<Rightarrow> avi_parser \<Rightarrow> stream \<Rightarrow> u32 \<Rightarrow> (avi_parser \<times> stream) option"
  and parse_list_loop ::
    "nat \<Rightarrow> avi_parser \<Rightarrow> stream \<Rightarrow> u32 \<Rightarrow> u32 \<Rightarrow> (avi_parser \<times> stream) option"
where
  "parse_list 0 p f list_size = None"
| "parse_list (Suc k) p f list_size =
     (let (list_type, f1) = read_fourcc f
      in if list_type = FOURCC_MOVI
         then Some (p\<lparr>movi_offset := word_of_nat (ftell f1), movi_size := list_size - 4\<rparr>, f1)
         else parse_list_loop k p f1 list_size 4)"
| "parse_list_loop 0 p f list_size bytes_read = None"
| "parse_list_loop (Suc k) p f list_size bytes_read =
     (if bytes_read < list_size - 4
      then
        (let (fourcc, f1) = read_fourcc f;
             (sz, f2) = read_le32 f1
         in case (if fourcc = FOURCC_AVIH then Some (parse_avih p f2 sz)
                  else if fourcc = FOURCC_STRH then Some (parse_strh p f2 sz)
                  else if fourcc = FOURCC_STRF
                  then Some (if avi_video_info.found (video_info p)
                             then parse_strf_video p f2 sz
                             else parse_strf_audio p f2 sz)
                  else if fourcc = FOURCC_LIST then parse_list k p f2 sz
                  else Some (p, fseek_cur f2 (sint sz)))
            of None \<Rightarrow> None
             | Some (p', f3) \<Rightarrow>
                 parse_list_loop k p' (skip_pad f3 sz) list_size
                   (if sz AND 1 \<noteq> 0 then bytes_read + 8 + sz + 1
                    else bytes_read + 8 + sz))
      else Some (p, f))"

text \<open>The chunk loop of \<^verbatim>\<open>parse_avi_header\<close>, up to its \<^verbatim>\<open>break\<close>.\<close>

fun parse_avi_chunks :: "nat \<Rightarrow> avi_parser \<Rightarrow> stream \<Rightarrow> (avi_parser \<times> stream) option" where
  "parse_avi_chunks 0 p f = None"
| "parse_avi_chunks (Suc k) p f =
     (if feof f then Some (p, f)
      else
        (let (fourcc, f1) = read_fourcc f
         in if feof f1 then Some (p, f1)
            else
              (let (sz, f2) = read_le32 f1
               in case (if fourcc = FOURCC_LIST then parse_list k p f2 sz
                        else Some (p, fseek_cur f2 (sint sz)))
                  of None \<Rightarrow> None
                   | Some (p', f3) \<Rightarrow>
                       if movi_offset p' \<noteq> 0 then Some (p', skip_pad f3 sz)
                       else parse_avi_chunks k p' (skip_pad f3 sz))))"

definition parse_avi_header ::
  "nat \<Rightarrow> avi_parser \<Rightarrow> stream \<Rightarrow> (esp_err \<times> avi_parser \<times> stream) option" where
  "parse_avi_header fuel p f =
     (let (fourcc, f1) = read_fourcc f
      in if fourcc \<noteq> FOURCC_RIFF then Some (ESP_ERR_INVALID_ARG, p, f1)
         else
           (let (file_size, f2) = read_le32 f1;
                (fourcc2, f3) = read_fourcc f2
            in if fourcc2 \<noteq> FOURCC_AVI then Some (ESP_ERR_INVALID_ARG, p, f3)
               else
                 (case parse_avi_chunks fuel p f3 of
                    None \<Rightarrow> None
                  | Some (p', f') \<Rightarrow>
                      if movi_offset p' = 0 then Some (ESP_FAIL, p', f')
                      else Some (ESP_OK, p', f'))))"

text \<open>
  \<^verbatim>\<open>avi_parser_open\<close>.  \<open>fs\<close> is the file system (the bytes of each existing file); a NULL
  pointer argument is \<open>None\<close>.  The result is the status and the parser afterwards.
\<close>

definition avi_parser_open ::
  "nat \<Rightarrow> (string \<Rightarrow> u8 list option) \<Rightarrow> avi_parser option \<Rightarrow> string option
     \<Rightarrow> (esp_err \<times> avi_parser option) option" where
  "avi_parser_open fuel fs parser file_path =
     (case (parser, file_path) of
        (Some p, Some path) \<Rightarrow>
          (case fopen fs path of
             None \<Rightarrow> Some (ESP_FAIL, Some zero_parser)
           | Some f \<Rightarrow>
               (case parse_avi_header fuel zero_parser f of
                  None \<Rightarrow> None
                | Some (ret, p1, f1) \<Rightarrow>
                    if ret \<noteq> ESP_OK then Some (ret, Some (p1\<lparr>file_ptr := None\<rparr>))
                    else Some (ESP_OK,
                           Some (p1\<lparr>file_ptr := Some (fseek_set f1 (sint (movi_offset p1))),
                                    current_frame := 0, initialized := True\<rparr>))))
      | _ \<Rightarrow> Some (ESP_ERR_INVALID_ARG, parser))"

definition avi_parser_close :: "avi_parser option \<Rightarrow> avi_parser option" where
  "avi_parser_close parser =
     (case parser of
        None \<Rightarrow> None
      | Some p \<Rightarrow> Some (p\<lparr>file_ptr := None, initialized := False\<rparr>))"

section \<open>Reading chunks from the payload\<close>

text \<open>
  \<^verbatim>\<open>frame->data\<close> is a heap pointer: NULL, a live block holding bytes, or a block that
  has been freed already.
\<close>

datatype frame_data = Null | Live "u8 list" | Freed

record mjpeg_frame =
  data :: frame_data
  size_bytes :: u32
  frame_num :: u32
  timestamp_ms :: u32

text \<open>
  The scan loop of \<^verbatim>\<open>avi_parser_read_video_frame\<close>.  \<open>alloc n\<close> says whether
  \<^verbatim>\<open>malloc(n)\<close> succeeds.  The loop skips a non-video chunk by its declared size taken
  as a \<^verbatim>\<open>long\<close>, which may move backwards, so it carries a bound on its iterations
  (\<open>None\<close>: bound reached).
\<close>

fun read_video_loop ::
  "nat \<Rightarrow> (nat \<Rightarrow> bool) \<Rightarrow> avi_parser \<Rightarrow> stream \<Rightarrow> mjpeg_frame
     \<Rightarrow> (esp_err \<times> avi_parser \<times> mjpeg_frame) option" where
  "read_video_loop 0 alloc p f frame = None"
| "read_video_loop (Suc k) alloc p f frame =
     (if feof f then Some (ESP_ERR_NOT_FOUND, p\<lparr>file_ptr := Some f\<rparr>, frame)
      else
        (let (fourcc, f1) = read_fourcc f
         in if feof f1 then Some (ESP_ERR_NOT_FOUND, p\<lparr>file_ptr := Some f1\<rparr>, frame)
            else
              (let (sz, f2) = read_le32 f1
               in if fourcc AND 0xFFFF = 0x6364 \<or> fourcc AND 0xFFFF = 0x6264
                  then
                    (if \<not> alloc (unat sz)
                     then Some (ESP_ERR_NO_MEM, p\<lparr>file_ptr := Some f2\<rparr>, frame\<lparr>data := Null\<rparr>)
                     else
                       (let (got, f3) = fread f2 (unat sz)
                        in if length got \<noteq> unat sz
                           then Some (ESP_FAIL, p\<lparr>file_ptr := Some f3\<rparr>, frame\<lparr>data := Freed\<rparr>)
                           else
                             Some (ESP_OK,
                               p\<lparr>file_ptr := Some (skip_pad f3 sz),
                                 current_frame := current_frame p + 1\<rparr>,
                               \<lparr>data = Live got, size_bytes = sz,
                                frame_num = current_frame p,
                                timestamp_ms =
                                  (current_frame p * micro_sec_per_frame (main_header p))
                                    div 1000\<rparr>)))
                  else read_video_loop k alloc p (skip_pad (fseek_cur f2 (sint sz)) sz) frame)))"

text \<open>
  \<^verbatim>\<open>avi_parser_read_video_frame\<close>: the status, the parser and the caller's frame
  structure afterwards.  A parser that is marked initialized without an open stream makes
  the C code dereference a NULL \<^verbatim>\<open>FILE *\<close>; the model has no result there.
\<close>

definition avi_parser_read_video_frame ::
  "nat \<Rightarrow> (nat \<Rightarrow> bool) \<Rightarrow> avi_parser option \<Rightarrow> mjpeg_frame option
     \<Rightarrow> (esp_err \<times> avi_parser option \<times> mjpeg_frame option) option" where
  "avi_parser_read_video_frame fuel alloc parser frame =
     (case (parser, frame) of
        (Some p, Some fr) \<Rightarrow>
          (if \<not> initialized p then Some (ESP_ERR_INVALID_ARG, parser, frame)
           else
             (case file_ptr p of
                None \<Rightarrow> None
              | Some f \<Rightarrow>
                  (case read_video_loop fuel alloc p f fr of
                     None \<Rightarrow> None
                   | Some (ret, p', fr') \<Rightarrow> Some (ret, Some p', Some fr'))))
      | _ \<Rightarrow> Some (ESP_ERR_INVALID_ARG, parser, frame))"

text \<open>
  \<^verbatim>\<open>fread(buffer, 1, n, f)\<close> into the caller's memory: the bytes delivered replace the
  front of the region.  The list is the region that belongs to the caller's buffer, so a
  result longer than the buffer would be a write past its end.
\<close>

definition store_bytes :: "u8 list \<Rightarrow> u8 list \<Rightarrow> u8 list" where
  "store_bytes buffer got = got @ drop (length got) buffer"

fun read_audio_loop ::
  "nat \<Rightarrow> avi_parser \<Rightarrow> stream \<Rightarrow> u8 list \<Rightarrow> u32 \<Rightarrow> u32 option
     \<Rightarrow> (esp_err \<times> avi_parser \<times> u8 list \<times> u32 option) option" where
  "read_audio_loop 0 p f buffer max_size bytes_read = None"
| "read_audio_loop (Suc k) p f buffer max_size bytes_read =
     (if feof f then Some (ESP_ERR_NOT_FOUND, p\<lparr>file_ptr := Some f\<rparr>, buffer, bytes_read)
      else
        (let (fourcc, f1) = read_fourcc f
         in if feof f1
            then Some (ESP_ERR_NOT_FOUND, p\<lparr>file_ptr := Some f1\<rparr>, buffer, bytes_read)
            else
              (let (sz, f2) = read_le32 f1
               in if fourcc AND 0xFFFF = 0x6277
                  then
                    (let read_size = (if sz < max_size then sz else max_size);
                         (got, f3) = fread f2 (unat read_size);
                         f4 = (if sz > max_size then fseek_cur f3 (sint (sz - max_size))
                               else f3)
                     in Some (ESP_OK, p\<lparr>file_ptr := Some (skip_pad f4 sz)\<rparr>,
                              store_bytes buffer got,
                              (case bytes_read of
                                 None \<Rightarrow> None
                               | Some _ \<Rightarrow> Some (word_of_nat (length got)))))
                  else read_audio_loop k p (skip_pad (fseek_cur f2 (sint sz)) sz)
                         buffer max_size bytes_read)))"

text \<open>
  \<^verbatim>\<open>avi_parser_read_audio_chunk\<close>.  \<open>bytes_read\<close> is the optional out-parameter
  (\<open>None\<close> for a NULL pointer, otherwise its value before the call).
\<close>

definition avi_parser_read_audio_chunk ::
  "nat \<Rightarrow> avi_parser option \<Rightarrow> u8 list option \<Rightarrow> u32 \<Rightarrow> u32 option
     \<Rightarrow> (esp_err \<times> avi_parser option \<times> u8 list option \<times> u32 option) option" where
  "avi_parser_read_audio_chunk fuel parser buffer max_size bytes_read =
     (case (parser, buffer) of
        (Some p, Some buf) \<Rightarrow>
          (if \<not> initialized p then Some (ESP_ERR_INVALID_ARG, parser, buffer, bytes_read)
           else
             (case file_ptr p of
                None \<Rightarrow> None
              | Some f \<Rightarrow>
                  (case read_audio_loop fuel p f buf max_size bytes_read of
                     None \<Rightarrow> None
                   | Some (ret, p', buf', n) \<Rightarrow> Some (ret, Some p', Some buf', n))))
      | _ \<Rightarrow> Some (ESP_ERR_INVALID_ARG, parser, buffer, bytes_read))"

text \<open>
  The skip loop of \<^verbatim>\<open>avi_parser_seek\<close>.  \<^verbatim>\<open>temp_frame\<close> is an uninitialised local
  that every successful read overwrites in full; the model starts it with a NULL data
  pointer.
\<close>

definition temp_frame :: mjpeg_frame where
  "temp_frame = \<lparr>data = Null, size_bytes = 0, frame_num = 0, timestamp_ms = 0\<rparr>"

fun seek_loop ::
  "nat \<Rightarrow> (nat \<Rightarrow> bool) \<Rightarrow> avi_parser \<Rightarrow> u32 \<Rightarrow> (esp_err \<times> avi_parser) option" where
  "seek_loop 0 alloc p target = None"
| "seek_loop (Suc k) alloc p target =
     (if current_frame p < target
      then
        (case avi_parser_read_video_frame k alloc (Some p) (Some temp_frame) of
           Some (ret, Some p', _) \<Rightarrow>
             if ret \<noteq> ESP_OK then Some (ESP_FAIL, p') else seek_loop k alloc p' target
         | _ \<Rightarrow> None)
      else Some (ESP_OK, p))"

definition avi_parser_seek ::
  "nat \<Rightarrow> (nat \<Rightarrow> bool) \<Rightarrow> avi_parser option \<Rightarrow> u32
     \<Rightarrow> (esp_err \<times> avi_parser option) option" where
  "avi_parser_seek fuel alloc parser target =
     (case parser of
        None \<Rightarrow> Some (ESP_ERR_INVALID_ARG, parser)
      | Some p \<Rightarrow>
          (if \<not> initialized p then Some (ESP_ERR_INVALID_ARG, parser)
           else
             (case file_ptr p of
                None \<Rightarrow> None
              | Some f \<Rightarrow>
                  (case seek_loop fuel alloc
                          (p\<lparr>file_ptr := Some (fseek_set f (sint (movi_offset p))),
                             current_frame := 0\<rparr>) target of
                     None \<Rightarrow> None
                   | Some (ret, p') \<Rightarrow> Some (ret, Some p')))))"

definition avi_parser_get_current_frame :: "avi_parser option \<Rightarrow> u32" where
  "avi_parser_get_current_frame parser =
     (case parser of None \<Rightarrow> 0 | Some p \<Rightarrow> current_frame p)"

definition avi_parser_get_total_frames :: "avi_parser option \<Rightarrow> u32" where
  "avi_parser_get_total_frames parser =
     (case parser of None \<Rightarrow> 0 | Some p \<Rightarrow> avi_parser.total_frames p)"

section \<open>Frame rate\<close>

text \<open>
  \<^verbatim>\<open>avi_parser_get_fps\<close> computes in \<^verbatim>\<open>float\<close>.  A binary32 value is modelled by the
  rational it denotes, and every operation rounds its exact result to the nearest
  binary32 value, ties to even (\<open>f32_round\<close>, for positive values in the normal range:
  24 significant bits).
\<close>

definition f32_exponent :: "rat \<Rightarrow> int" where
  "f32_exponent x =
     (if 1 \<le> x then int (floorlog 2 (nat \<lfloor>x\<rfloor>)) - 1
      else - int (floorlog 2 (nat (\<lceil>1 / x\<rceil> - 1))))"

definition round_half_even :: "rat \<Rightarrow> int" where
  "round_half_even q =
     (let n = \<lfloor>q\<rfloor>; r = q - of_int n
      in if r < 1 / 2 then n
         else if 1 / 2 < r then n + 1
         else if even n then n else n + 1)"

definition f32_round :: "rat \<Rightarrow> rat" where
  "f32_round x =
     (if x \<le> 0 then 0
      else
        (let e = f32_exponent x;
             ulp = (if 23 \<le> e then 2 ^ nat (e - 23) else 1 / 2 ^ nat (23 - e))
         in of_int (round_half_even (x / ulp)) * ulp))"

definition avi_parser_get_fps :: "avi_parser option \<Rightarrow> rat" where
  "avi_parser_get_fps parser =
     (case parser of
        None \<Rightarrow> 0
      | Some p \<Rightarrow>
          if micro_sec_per_frame (main_header p) = 0 then 0
          else f32_round (1000000 /
                 f32_round (of_nat (unat (micro_sec_per_frame (main_header p))))))"

text \<open>The cast \<^verbatim>\<open>(uint16_t)\<close> of a float truncates towards zero; a value that does not
  fit has no defined result.\<close>

definition float_to_u16 :: "rat \<Rightarrow> u16 option" where
  "float_to_u16 x =
     (let t = (if 0 \<le> x then \<lfloor>x\<rfloor> else \<lceil>x\<rceil>)
      in if 0 \<le> t \<and> t < 65536 then Some (word_of_int t) else None)"

text \<open>Unsigned division in C: dividing by zero has no defined result.\<close>

definition c_udiv :: "'a::len word \<Rightarrow> 'a word \<Rightarrow> 'a word option" where
  "c_udiv a b = (if b = 0 then None else Some (a div b))"

section \<open>MJPEG decoder\<close>

record mjpeg_decoder =
  jpeg_handle :: "nat option"
  max_width :: u16
  max_height :: u16
  last_decode_ms :: u32

text \<open>
  The JPEG component is outside the repository.  \<open>has_esp_jpeg\<close> is the build switch
  \<^verbatim>\<open>HAS_ESP_JPEG\<close>; \<open>jpeg_decoder_get_info\<close> gives the status and the dimensions found
  in the frame header (16-bit fields of a JPEG frame header, as they arrive in the locals
  \<^verbatim>\<open>uint16_t width, height\<close>); \<open>jpeg_decoder_process\<close> gives the status and the pixel
  array after decoding into it.
\<close>

record jpeg_lib =
  has_esp_jpeg :: bool
  jpeg_decoder_get_info :: "mjpeg_frame \<Rightarrow> esp_err \<times> u16 \<times> u16"
  jpeg_decoder_process :: "nat option \<Rightarrow> mjpeg_frame \<Rightarrow> u16 list \<Rightarrow> esp_err \<times> u16 list"

text \<open>
  \<^verbatim>\<open>mjpeg_decoder_decode_frame\<close>.  \<open>t0\<close> and \<open>t1\<close> are the two readings of
  \<^verbatim>\<open>esp_timer_get_time\<close>.  \<open>output\<close> is the pixel array behind the pointer, and
  \<open>output_width\<close>, \<open>output_height\<close> are the optional out-parameters.  The result is the
  status followed by the decoder, the pixel array and the out-parameters afterwards.
\<close>

definition mjpeg_decoder_decode_frame ::
  "jpeg_lib \<Rightarrow> u64 \<Rightarrow> u64 \<Rightarrow> mjpeg_decoder option \<Rightarrow> mjpeg_frame option \<Rightarrow> u16 list option
     \<Rightarrow> u16 option \<Rightarrow> u16 option
     \<Rightarrow> esp_err \<times> mjpeg_decoder option \<times> u16 list option \<times> u16 option \<times> u16 option" where
  "mjpeg_decoder_decode_frame lib t0 t1 decoder frame output output_width output_height =
     (case (decoder, frame, output) of
        (Some d, Some fr, Some out) \<Rightarrow>
          if \<not> has_esp_jpeg lib
          then (ESP_ERR_NOT_SUPPORTED, decoder, output, output_width, output_height)
          else
            (let (ret, w, h) = jpeg_decoder_get_info lib fr
             in if ret \<noteq> ESP_OK then (ret, decoder, output, output_width, output_height)
                else if w > max_width d \<or> h > max_height d
                then (ESP_ERR_INVALID_SIZE, decoder, output, output_width, output_height)
                else
                  (let (ret2, out') = jpeg_decoder_process lib (jpeg_handle d) fr out
                   in if ret2 \<noteq> ESP_OK
                      then (ret2, decoder, Some out', output_width, output_height)
                      else (ESP_OK,
                            Some (d\<lparr>last_decode_ms := ucast ((t1 - t0) div 1000)\<rparr>),
                            Some out',
                            map_option (\<lambda>_. w) output_width,
                            map_option (\<lambda>_. h) output_height)))
      | _ \<Rightarrow> (ESP_ERR_INVALID_ARG, decoder, output, output_width, output_height))"

section \<open>Video player\<close>

datatype video_state =
  VIDEO_STATE_STOPPED | VIDEO_STATE_PLAYING | VIDEO_STATE_PAUSED | VIDEO_STATE_ERROR

record video_info =
  path :: string
  width :: u16
  height :: u16
  fps :: u16
  frame_count :: u32
  duration_sec :: u32

record frame_buffer =
  buffer :: "u16 list"
  width :: u16
  height :: u16
  ready :: bool

text \<open>Function pointers and task handles are addresses; \<open>None\<close> is NULL.\<close>

record video_callbacks =
  on_frame_decoded :: "nat option"
  on_playback_complete :: "nat option"
  on_error :: "nat option"

record video_player =
  state :: video_state
  info :: video_info
  avi_parser :: avi_parser
  decoder :: "mjpeg_decoder option"
  frame_buffer :: "frame_buffer option list"
  current_buffer :: u8
  current_frame :: u32
  playback_task :: "nat option"
  callbacks :: video_callbacks
  user_data :: "nat option"
  frame_time_us :: u64
  last_frame_time :: u64

definition video_player_close :: "video_player option \<Rightarrow> video_player option" where
  "video_player_close player =
     (case player of
        None \<Rightarrow> None
      | Some pl \<Rightarrow>
          (case avi_parser_close (Some (avi_parser pl)) of
             None \<Rightarrow> None
           | Some ap \<Rightarrow> Some (pl\<lparr>avi_parser := ap, video_player.current_frame := 0\<rparr>)))"

text \<open>
  \<^verbatim>\<open>video_player_open\<close>.  \<^verbatim>\<open>strncpy\<close> copies at most 255 characters of the path; the
  last byte of \<^verbatim>\<open>info.path\<close> is never written and stays the terminator.  The result is
  \<open>None\<close> where the C code has no defined result or the header parser reaches its bound.
\<close>

definition video_player_open ::
  "nat \<Rightarrow> (string \<Rightarrow> u8 list option) \<Rightarrow> video_player option \<Rightarrow> string option
     \<Rightarrow> (esp_err \<times> video_player option) option" where
  "video_player_open fuel fs player file_path =
     (case (video_player_close player, file_path) of
        (Some pl, Some fp) \<Rightarrow>
          (case avi_parser_open fuel fs (Some (avi_parser pl)) (Some fp) of
             Some (ret, Some ap) \<Rightarrow>
               if ret \<noteq> ESP_OK then Some (ret, Some (pl\<lparr>avi_parser := ap\<rparr>))
               else
                 (case float_to_u16 (avi_parser_get_fps (Some ap)) of
                    None \<Rightarrow> None
                  | Some fps0 \<Rightarrow>
                      (let fc = avi_parser_get_total_frames (Some ap)
                       in case c_udiv fc (if fps0 > 0 then ucast fps0 else 15) of
                            None \<Rightarrow> None
                          | Some dur \<Rightarrow>
                              (let fps1 = (if fps0 = 0 then 15 else fps0)
                               in case c_udiv (1000000 :: u32) (ucast fps1) of
                                    None \<Rightarrow> None
                                  | Some ft \<Rightarrow>
                                      Some (ESP_OK,
                                        Some (pl\<lparr>avi_parser := ap,
                                          info := \<lparr>path = take 255 fp,
                                            video_info.width = avi_video_info.width (video_info ap),
                                            video_info.height = avi_video_info.height (video_info ap),
                                            fps = fps1, frame_count = fc, duration_sec = dur\<rparr>,
                                          frame_time_us := ucast ft,
                                          video_player.current_frame := 0\<rparr>)))))
           | _ \<Rightarrow> None)
      | _ \<Rightarrow> Some (ESP_ERR_INVALID_ARG, player))"

definition video_player_pause :: "video_player option \<Rightarrow> esp_err \<times> video_player option" where
  "video_player_pause player =
     (case player of
        None \<Rightarrow> (ESP_FAIL, None)
      | Some pl \<Rightarrow>
          (ESP_OK,
           Some (if state pl = VIDEO_STATE_PLAYING then pl\<lparr>state := VIDEO_STATE_PAUSED\<rparr>
                 else pl)))"

definition video_player_get_state :: "video_player option \<Rightarrow> video_state" where
  "video_player_get_state player =
     (case player of None \<Rightarrow> VIDEO_STATE_ERROR | Some pl \<Rightarrow> state pl)"

definition video_player_get_info ::
  "video_player option \<Rightarrow> video_info option \<Rightarrow> esp_err \<times> video_info option" where
  "video_player_get_info player out =
     (case (player, out) of
        (Some pl, Some _) \<Rightarrow> (ESP_OK, Some (info pl))
      | _ \<Rightarrow> (ESP_ERR_INVALID_ARG, out))"

definition video_player_get_current_frame :: "video_player option \<Rightarrow> u32" where
  "video_player_get_current_frame player =
     (case player of None \<Rightarrow> 0 | Some pl \<Rightarrow> video_player.current_frame pl)"

text \<open>\<^verbatim>\<open>video_player_get_position_sec\<close>; \<open>None\<close> would be a division by zero.\<close>

definition video_player_get_position_sec :: "video_player option \<Rightarrow> u32 option" where
  "video_player_get_position_sec player =
     (case player of
        None \<Rightarrow> Some 0
      | Some pl \<Rightarrow>
          if fps (info pl) = 0 then Some 0
          else c_udiv (video_player.current_frame pl) (ucast (fps (info pl))))"

section \<open>Audio player\<close>

datatype audio_state = AUDIO_STATE_STOPPED | AUDIO_STATE_PLAYING | AUDIO_STATE_PAUSED

record audio_config =
  sample_rate :: u32
  bits_per_sample :: u8
  channels :: u8
  pin_bclk :: int
  pin_ws :: int
  pin_dout :: int

record audio_player =
  tx_handle :: "nat option"
  config :: audio_config
  state :: audio_state
  volume :: u8
  initialized :: bool

text \<open>
  One iteration of the loop of \<^verbatim>\<open>apply_volume\<close>.  In \<^verbatim>\<open>sample * scale\<close> the
  \<^verbatim>\<open>int32_t\<close> operand is converted to \<^verbatim>\<open>uint32_t\<close>, so the product is taken modulo
  \<open>2 ^ 32\<close> and the shift is a logical one; the result goes back into the
  \<^verbatim>\<open>int32_t\<close> variable, is clamped by signed comparisons and is cut to 16 bits.
\<close>

definition scale_sample :: "u32 \<Rightarrow> u16 \<Rightarrow> u16" where
  "scale_sample scale s =
     (let sample0 = (scast s :: u32);
          sample1 = drop_bit 16 (sample0 * scale);
          sample2 = (if sint sample1 > 32767 then 32767 else sample1);
          sample3 = (if sint sample2 < - 32768 then - 32768 else sample2)
      in ucast sample3)"

definition apply_volume :: "u16 list \<Rightarrow> nat \<Rightarrow> u8 \<Rightarrow> u16 list" where
  "apply_volume samples count vol =
     (if vol \<ge> 100 then samples
      else
        (let scale = (word_of_nat ((unat vol * 65536) div 100) :: u32)
         in map (scale_sample scale) (take count samples) @ drop count samples))"

text \<open>The byte buffer seen as \<^verbatim>\<open>int16_t\<close> samples (little endian) and back.\<close>

fun samples_of_bytes :: "u8 list \<Rightarrow> u16 list" where
  "samples_of_bytes (lo # hi # rest) = le16 [lo, hi] # samples_of_bytes rest"
| "samples_of_bytes _ = []"

definition bytes_of_samples :: "u16 list \<Rightarrow> u8 list" where
  "bytes_of_samples xs = concat (map (\<lambda>x. [ucast x, ucast (drop_bit 8 x)]) xs)"

text \<open>
  \<^verbatim>\<open>audio_player_write\<close>, with \<open>size = length data\<close>.  \<open>alloc\<close> says whether
  \<^verbatim>\<open>malloc\<close> succeeds and \<open>i2s_ret\<close> is what \<^verbatim>\<open>i2s_channel_write\<close> returns.  The
  result is the status and the bytes handed to the I2S channel, if that call is reached.
\<close>

definition audio_player_write ::
  "(nat \<Rightarrow> bool) \<Rightarrow> esp_err \<Rightarrow> audio_player option \<Rightarrow> u8 list option
     \<Rightarrow> esp_err \<times> u8 list option" where
  "audio_player_write alloc i2s_ret player data_in =
     (case (player, data_in) of
        (Some pl, Some bs) \<Rightarrow>
          if \<not> audio_player.initialized pl then (ESP_ERR_INVALID_ARG, None)
          else if audio_player.state pl \<noteq> AUDIO_STATE_PLAYING then (ESP_ERR_INVALID_STATE, None)
          else if volume pl < 100 \<and> audio_config.bits_per_sample (config pl) = 16
                  \<and> alloc (length bs)
          then
            (let sample_count = length bs div 2;
                 scaled = apply_volume (samples_of_bytes bs) sample_count (volume pl)
             in (i2s_ret, Some (bytes_of_samples scaled @ drop (2 * sample_count) bs)))
          else (i2s_ret, Some bs)
      | _ \<Rightarrow> (ESP_ERR_INVALID_ARG, None))"

section \<open>Fixtures\<close>

text \<open>A player in the middle of playback, as \<^verbatim>\<open>video_player_create\<close> and
  \<^verbatim>\<open>video_player_play\<close> leave it (small pixel arrays stand for the frame buffers).\<close>

definition sample_player :: video_player where
  "sample_player =
     \<lparr>video_player.state = VIDEO_STATE_PLAYING,
      info = \<lparr>path = ''/sdcard/a.avi'', video_info.width = 240, video_info.height = 240,
              fps = 15, frame_count = 150, duration_sec = 10\<rparr>,
      avi_parser = zero_parser,
      decoder = Some \<lparr>jpeg_handle = None, max_width = 320, max_height = 240,
                       last_decode_ms = 0\<rparr>,
      frame_buffer = [Some \<lparr>buffer = [0, 0, 0, 0], frame_buffer.width = 2,
                             frame_buffer.height = 2, ready = True\<rparr>,
                      Some \<lparr>buffer = [0, 0, 0, 0], frame_buffer.width = 2,
                             frame_buffer.height = 2, ready = False\<rparr>],
      current_buffer = 0, video_player.current_frame = 42, playback_task = Some 1,
      callbacks = \<lparr>on_frame_decoded = None, on_playback_complete = None, on_error = None\<rparr>,
      user_data = None, frame_time_us = 66666, last_frame_time = 0\<rparr>"

text \<open>A decoder as \<^verbatim>\<open>mjpeg_decoder_create(320, 240)\<close> makes it, a JPEG component whose
  header parser reports 640 x 480 and whose decoder overwrites every pixel, and a frame
  buffer that is ready for display.\<close>

definition sample_decoder :: mjpeg_decoder where
  "sample_decoder = \<lparr>jpeg_handle = Some 1, max_width = 320, max_height = 240,
                      last_decode_ms = 0\<rparr>"

definition sample_lib :: jpeg_lib where
  "sample_lib =
     \<lparr>has_esp_jpeg = True,
      jpeg_decoder_get_info = (\<lambda>fr. (ESP_OK, 640, 480)),
      jpeg_decoder_process = (\<lambda>h fr out. (ESP_OK, map (\<lambda>_. 0xFFFF) out))\<rparr>"

definition sample_frame :: mjpeg_frame where
  "sample_frame = \<lparr>data = Live [0xFF, 0xD8, 0xFF, 0xD9], size_bytes = 4, frame_num = 0,
                    timestamp_ms = 0\<rparr>"

definition sample_fb :: frame_buffer where
  "sample_fb = \<lparr>buffer = [1, 2, 3, 4], frame_buffer.width = 2, frame_buffer.height = 2,
                 ready = True\<rparr>"

text \<open>An audio player that is playing 16-bit samples at half volume.\<close>

definition sample_audio_player :: audio_player where
  "sample_audio_player =
     \<lparr>tx_handle = Some 1,
      config = \<lparr>sample_rate = 22050, audio_config.bits_per_sample = 16,
                audio_config.channels = 1, pin_bclk = 26, pin_ws = 25, pin_dout = 22\<rparr>,
      audio_player.state = AUDIO_STATE_PLAYING, volume = 50,
      audio_player.initialized = True\<rparr>"

text \<open>Building container files: a 32-bit little-endian field, a chunk with its padding
  byte, a list, the 56-byte main header and a whole file.\<close>

definition u32_bytes :: "u32 \<Rightarrow> u8 list" where
  "u32_bytes w = [ucast w, ucast (drop_bit 8 w), ucast (drop_bit 16 w), ucast (drop_bit 24 w)]"

definition riff_chunk :: "u8 list \<Rightarrow> u8 list \<Rightarrow> u8 list" where
  "riff_chunk tag payload =
     tag @ u32_bytes (word_of_nat (length payload)) @ payload
       @ (if odd (length payload) then [0] else [])"

definition riff_list :: "u8 list \<Rightarrow> u8 list \<Rightarrow> u8 list" where
  "riff_list tag contents =
     [0x4C, 0x49, 0x53, 0x54] @ u32_bytes (word_of_nat (4 + length contents)) @ tag @ contents"

definition avih_payload :: "u32 \<Rightarrow> u32 \<Rightarrow> u8 list" where
  "avih_payload usec frames =
     u32_bytes usec @ u32_bytes 0 @ u32_bytes 0 @ u32_bytes 0x10 @ u32_bytes frames
       @ u32_bytes 0 @ u32_bytes 1 @ u32_bytes 0 @ u32_bytes 240 @ u32_bytes 240
       @ [0, 0, 0, 0, 0, 0, 0, 0, 0, 0, 0, 0, 0, 0, 0, 0]"

definition avi_file :: "u32 \<Rightarrow> u32 \<Rightarrow> u8 list \<Rightarrow> u8 list" where
  "avi_file usec frames payload =
     (let body =
            riff_list [0x68, 0x64, 0x72, 0x6C]
              (riff_chunk [0x61, 0x76, 0x69, 0x68] (avih_payload usec frames))
            @ riff_list [0x6D, 0x6F, 0x76, 0x69] payload
      in [0x52, 0x49, 0x46, 0x46] @ u32_bytes (word_of_nat (4 + length body))
           @ [0x41, 0x56, 0x49, 0x20] @ body)"

text \<open>The tags \<^verbatim>\<open>00dc\<close> and \<^verbatim>\<open>01wb\<close> of a standard container.\<close>

definition tag_00dc :: "u8 list" where "tag_00dc = [0x30, 0x30, 0x64, 0x63]"
definition tag_01wb :: "u8 list" where "tag_01wb = [0x30, 0x31, 0x77, 0x62]"

text \<open>A standard two-frame container (15 fps, one audio block between the frames), a
  150-frame header for the frame-rate scenario, and a WAVE file, which carries the RIFF
  envelope with another format tag.\<close>

definition two_frame_avi :: "u8 list" where
  "two_frame_avi =
     avi_file 66667 2
       (riff_chunk tag_00dc [0xFF, 0xD8, 0xFF, 0xD9]
        @ riff_chunk tag_01wb [1, 2, 3]
        @ riff_chunk tag_00dc [0xFF, 0xD8, 0xD9])"

definition fps15_avi :: "u8 list" where
  "fps15_avi = avi_file 66667 150 (riff_chunk tag_00dc [0xFF, 0xD8, 0xFF, 0xD9])"

definition wave_file :: "u8 list" where
  "wave_file = [0x52, 0x49, 0x46, 0x46, 4, 0, 0, 0, 0x57, 0x41, 0x56, 0x45]"

definition sample_fs :: "string \<Rightarrow> u8 list option" where
  "sample_fs name =
     (if name = ''/sdcard/two.avi'' then Some two_frame_avi
      else if name = ''/sdcard/ep1.avi'' then Some fps15_avi
      else if name = ''/sdcard/a.wav'' then Some wave_file
      else None)"

text \<open>An allocator that never fails.\<close>

definition always_alloc :: "nat \<Rightarrow> bool" where
  "always_alloc n = True"

text \<open>The parser that \<^verbatim>\<open>avi_parser_open\<close> yields for the two-frame container.\<close>

definition opened_two_frame :: avi_parser where
  "opened_two_frame =
     zero_parser\<lparr>file_ptr := Some \<lparr>bytes = two_frame_avi, pos = 100, eof = False\<rparr>,
       main_header := \<lparr>micro_sec_per_frame = 66667, max_bytes_per_sec = 0,
                        avi_main_header.total_frames = 2, streams = 1,
                        suggested_buffer_size = 0, avi_main_header.width = 240,
                        avi_main_header.height = 240\<rparr>,
       movi_offset := 100, movi_size := 36, avi_parser.total_frames := 2,
       avi_parser.initialized := True\<rparr>"

text \<open>A player as \<^verbatim>\<open>video_player_create\<close> leaves it.\<close>

definition fresh_player :: video_player where
  "fresh_player =
     \<lparr>video_player.state = VIDEO_STATE_STOPPED,
      info = \<lparr>path = [], video_info.width = 0, video_info.height = 0,
              fps = 0, frame_count = 0, duration_sec = 0\<rparr>,
      avi_parser = zero_parser,
      decoder = Some \<lparr>jpeg_handle = None, max_width = 320, max_height = 240,
                       last_decode_ms = 0\<rparr>,
      frame_buffer = [Some \<lparr>buffer = [0, 0, 0, 0], frame_buffer.width = 2,
                             frame_buffer.height = 2, ready = False\<rparr>,
                      Some \<lparr>buffer = [0, 0, 0, 0], frame_buffer.width = 2,
                             frame_buffer.height = 2, ready = False\<rparr>],
      current_buffer = 0, video_player.current_frame = 0, playback_task = None,
      callbacks = \<lparr>on_frame_decoded = None, on_playback_complete = None, on_error = None\<rparr>,
      user_data = None, frame_time_us = 0, last_frame_time = 0\<rparr>"

text \<open>The stub build of the decoder (\<^verbatim>\<open>HAS_ESP_JPEG\<close> is 0), given the same 640 x 480
  frame.\<close>

definition stub_lib :: jpeg_lib where
  "stub_lib =
     \<lparr>has_esp_jpeg = False,
      jpeg_decoder_get_info = (\<lambda>fr. (ESP_OK, 640, 480)),
      jpeg_decoder_process = (\<lambda>h fr out. (ESP_OK, map (\<lambda>_. 0xFFFF) out))\<rparr>"


text \<open>The parser that \<^verbatim>\<open>avi_parser_open\<close> yields for the 150-frame container, and the
  playing player after \<^verbatim>\<open>video_player_open\<close> of that container.\<close>

definition opened_fps15 :: avi_parser where
  "opened_fps15 =
     zero_parser\<lparr>file_ptr := Some \<lparr>bytes = fps15_avi, pos = 100, eof = False\<rparr>,
       main_header := \<lparr>micro_sec_per_frame = 66667, max_bytes_per_sec = 0,
                        avi_main_header.total_frames = 150, streams = 1,
                        suggested_buffer_size = 0, avi_main_header.width = 240,
                        avi_main_header.height = 240\<rparr>,
       movi_offset := 100, movi_size := 12, avi_parser.total_frames := 150,
       avi_parser.initialized := True\<rparr>"


text \<open>
  Tags that the chunk tests of the two read functions accept: the test
  \<^verbatim>\<open>(fourcc & 0xFFFF) == 0x6364\<close> holds for a tag that starts with the characters
  \<^verbatim>\<open>dc\<close>, and \<^verbatim>\<open>(fourcc & 0xFFFF) == 0x6277\<close> for one that starts with \<^verbatim>\<open>wb\<close>.
\<close>

definition tag_dc00 :: "u8 list" where "tag_dc00 = [0x64, 0x63, 0x30, 0x30]"
definition tag_wb01 :: "u8 list" where "tag_wb01 = [0x77, 0x62, 0x30, 0x31]"

text \<open>A container whose audio chunk declares the size \<open>0x80000010\<close>, followed by 24
  bytes, and the parser that \<^verbatim>\<open>avi_parser_open\<close> yields for it.\<close>

definition giant_audio_avi :: "u8 list" where
  "giant_audio_avi =
     avi_file 66667 1
       (tag_wb01 @ u32_bytes 0x80000010
        @ [1, 2, 3, 4, 5, 6, 7, 8, 9, 10, 11, 12, 13, 14, 15, 16,
           17, 18, 19, 20, 21, 22, 23, 24])"

definition opened_giant :: avi_parser where
  "opened_giant =
     zero_parser\<lparr>file_ptr := Some \<lparr>bytes = giant_audio_avi, pos = 100, eof = False\<rparr>,
       main_header := \<lparr>micro_sec_per_frame = 66667, max_bytes_per_sec = 0,
                        avi_main_header.total_frames = 1, streams = 1,
                        suggested_buffer_size = 0, avi_main_header.width = 240,
                        avi_main_header.height = 240\<rparr>,
       movi_offset := 100, movi_size := 32, avi_parser.total_frames := 1,
       avi_parser.initialized := True\<rparr>"

definition zero_buffer16 :: "u8 list" where
  "zero_buffer16 = [0, 0, 0, 0, 0, 0, 0, 0, 0, 0, 0, 0, 0, 0, 0, 0]"

text \<open>A slide show: four frames, 30 minutes (1800000000 microseconds) apart, and the
  parser that \<^verbatim>\<open>avi_parser_open\<close> yields for it.\<close>

definition slideshow_avi :: "u8 list" where
  "slideshow_avi =
     avi_file 1800000000 4
       (riff_chunk tag_dc00 [0xFF, 0xD8] @ riff_chunk tag_dc00 [0xFF, 0xD8]
        @ riff_chunk tag_dc00 [0xFF, 0xD8] @ riff_chunk tag_dc00 [0xFF, 0xD8])"

definition opened_slideshow :: avi_parser where
  "opened_slideshow =
     zero_parser\<lparr>file_ptr := Some \<lparr>bytes = slideshow_avi, pos = 100, eof = False\<rparr>,
       main_header := \<lparr>micro_sec_per_frame = 1800000000, max_bytes_per_sec = 0,
                        avi_main_header.total_frames = 4, streams = 1,
                        suggested_buffer_size = 0, avi_main_header.width = 240,
                        avi_main_header.height = 240\<rparr>,
       movi_offset := 100, movi_size := 40, avi_parser.total_frames := 4,
       avi_parser.initialized := True\<rparr>"

text \<open>A parser 64424 frames into a 15 fps container, with two more frames ahead.\<close>

definition late_parser :: avi_parser where
  "late_parser =
     zero_parser\<lparr>file_ptr :=
         Some \<lparr>bytes = riff_chunk tag_dc00 [0xFF, 0xD8] @ riff_chunk tag_dc00 [0xFF, 0xD8],
               pos = 0, eof = False\<rparr>,
       main_header := \<lparr>micro_sec_per_frame = 66667, max_bytes_per_sec = 0,
                        avi_main_header.total_frames = 108000, streams = 1,
                        suggested_buffer_size = 0, avi_main_header.width = 240,
                        avi_main_header.height = 240\<rparr>,
       avi_parser.current_frame := 64424, avi_parser.total_frames := 108000,
       avi_parser.initialized := True\<rparr>"

text \<open>The status, frame index and timestamp of each of \<open>n\<close> consecutive calls of
  \<^verbatim>\<open>avi_parser_read_video_frame\<close>, as long as the calls return.\<close>

fun read_frames :: "nat \<Rightarrow> avi_parser option \<Rightarrow> (esp_err \<times> u32 \<times> u32) list" where
  "read_frames 0 parser = []"
| "read_frames (Suc n) parser =
     (case avi_parser_read_video_frame 20 always_alloc parser (Some temp_frame) of
        Some (ret, parser', Some fr) \<Rightarrow>
          (ret, frame_num fr, timestamp_ms fr) # read_frames n parser'
      | _ \<Rightarrow> [])"

definition giant_fs :: "string \<Rightarrow> u8 list option" where
  "giant_fs name = (if name = ''/sdcard/giant.avi'' then Some giant_audio_avi else None)"

definition slides_fs :: "string \<Rightarrow> u8 list option" where
  "slides_fs name = (if name = ''/sdcard/slides.avi'' then Some slideshow_avi else None)"

section \<open>Evaluation rules\<close>

text \<open>
  Equations for running the model on a concrete file by rewriting: the definitions with
  \<open>let\<close> and tuple patterns unfolded into projections, and the loops unfolded for a
  numeral bound.
\<close>

lemmas file_defs = avi_file_def riff_list_def riff_chunk_def avih_payload_def u32_bytes_def
  tag_00dc_def tag_01wb_def

lemmas fourcc_defs = FOURCC_RIFF_def FOURCC_AVI_def FOURCC_LIST_def FOURCC_MOVI_def
  FOURCC_AVIH_def FOURCC_STRH_def FOURCC_STRF_def FOURCC_VIDS_def FOURCC_AUDS_def

lemmas stream_eval = fopen_def feof_def ftell_def fread_def [unfolded Let_def split_beta]
  fseek_cur_def fseek_set_def read_le32_def [unfolded Let_def split_beta]
  read_le16_def [unfolded Let_def split_beta] read_fourcc_def le32_def le16_def skip_pad_def

lemmas header_eval =
  parse_avih_def [unfolded Let_def split_beta] parse_strh_def [unfolded Let_def split_beta]
  parse_strf_video_def [unfolded Let_def split_beta]
  parse_strf_audio_def [unfolded Let_def split_beta]
  parse_avi_header_def [unfolded Let_def split_beta]
  avi_parser_open_def [unfolded Let_def split_beta]

lemmas loop_eval =
  parse_list.simps(2) [of "pred_numeral n", unfolded Let_def split_beta, folded numeral_eq_Suc]
  parse_list_loop.simps(2) [of "pred_numeral n", unfolded Let_def split_beta, folded numeral_eq_Suc]
  parse_avi_chunks.simps(2) [of "pred_numeral n", unfolded Let_def split_beta, folded numeral_eq_Suc]
  read_video_loop.simps(2) [of "pred_numeral n", unfolded Let_def split_beta, folded numeral_eq_Suc]
  read_audio_loop.simps(2) [of "pred_numeral n", unfolded Let_def split_beta, folded numeral_eq_Suc]
  seek_loop.simps(2) [of "pred_numeral n", unfolded Let_def split_beta, folded numeral_eq_Suc]
  for n

lemmas reader_eval = avi_parser_read_video_frame_def avi_parser_read_audio_chunk_def
  avi_parser_seek_def temp_frame_def always_alloc_def store_bytes_def

lemma two_frame_avi_bytes:
  "two_frame_avi =
     [82, 73, 70, 70, 128, 0, 0, 0, 65, 86, 73, 32, 76, 73, 83, 84, 68, 0, 0, 0,
      104, 100, 114, 108, 97, 118, 105, 104, 56, 0, 0, 0, 107, 4, 1, 0, 0, 0, 0,
      0, 0, 0, 0, 0, 16, 0, 0, 0, 2, 0, 0, 0, 0, 0, 0, 0, 1, 0, 0, 0, 0, 0, 0,
      0, 240, 0, 0, 0, 240, 0, 0, 0, 0, 0, 0, 0, 0, 0, 0, 0, 0, 0, 0, 0, 0, 0,
      0, 0, 76, 73, 83, 84, 40, 0, 0, 0, 109, 111, 118, 105, 48, 48, 100, 99, 4,
      0, 0, 0, 255, 216, 255, 217, 48, 49, 119, 98, 3, 0, 0, 0, 1, 2, 3, 0, 48,
      48, 100, 99, 3, 0, 0, 0, 255, 216, 217, 0]"
  by (simp add: two_frame_avi_def file_defs Let_def)

lemma fps15_avi_bytes:
  "fps15_avi =
     [82, 73, 70, 70, 104, 0, 0, 0, 65, 86, 73, 32, 76, 73, 83, 84, 68, 0, 0, 0,
      104, 100, 114, 108, 97, 118, 105, 104, 56, 0, 0, 0, 107, 4, 1, 0, 0, 0, 0,
      0, 0, 0, 0, 0, 16, 0, 0, 0, 150, 0, 0, 0, 0, 0, 0, 0, 1, 0, 0, 0, 0, 0, 0,
      0, 240, 0, 0, 0, 240, 0, 0, 0, 0, 0, 0, 0, 0, 0, 0, 0, 0, 0, 0, 0, 0, 0,
      0, 0, 76, 73, 83, 84, 16, 0, 0, 0, 109, 111, 118, 105, 48, 48, 100, 99, 4,
      0, 0, 0, 255, 216, 255, 217]"
  by (simp add: fps15_avi_def file_defs Let_def)

section \<open>Playback controller\<close>

text \<open>
  Claim C9.  For a player in the Playing state, \<^verbatim>\<open>video_player_pause\<close> returns
  \<^verbatim>\<open>ESP_OK\<close> and the player afterwards is the player before with the state field set
  to Paused: the current frame index, the parser with its open container, the video info,
  the frame buffers and every other field are the same.
\<close>

theorem video_player_pause_only_state:
  assumes "video_player.state pl = VIDEO_STATE_PLAYING"
  shows "video_player_pause (Some pl)
           = (ESP_OK, Some (pl\<lparr>video_player.state := VIDEO_STATE_PAUSED\<rparr>))"
  using assms by (simp add: video_player_pause_def)

theorem video_player_pause_only_state_witness:
  "video_player.state sample_player = VIDEO_STATE_PLAYING
   \<and> video_player_pause (Some sample_player)
       = (ESP_OK, Some (sample_player\<lparr>video_player.state := VIDEO_STATE_PAUSED\<rparr>))"
proof -
  have h: "video_player.state sample_player = VIDEO_STATE_PLAYING"
    by (simp add: sample_player_def)
  show ?thesis using h video_player_pause_only_state [OF h] by simp
qed

lemma ucast_u16_u32_eq_0: "(ucast (x :: u16) :: u32) = 0 \<longleftrightarrow> x = 0"
  by transfer simp

text \<open>
  Claim C10.  The queries are total on a NULL handle: the state query answers Error, the
  frame query 0 and the position query 0; the position query also answers 0 for a player
  whose fps is 0, and for no argument does it divide by zero.
\<close>

theorem video_player_queries_total:
  "video_player_get_state None = VIDEO_STATE_ERROR
   \<and> video_player_get_current_frame None = 0
   \<and> video_player_get_position_sec None = Some 0
   \<and> (\<forall>pl. fps (info pl) = 0 \<longrightarrow> video_player_get_position_sec (Some pl) = Some 0)
   \<and> (\<forall>player. video_player_get_position_sec player \<noteq> None)"
  by (auto simp: video_player_get_state_def video_player_get_current_frame_def
        video_player_get_position_sec_def c_udiv_def ucast_u16_u32_eq_0 split: option.splits)

theorem video_player_queries_total_witness:
  "fps (info (sample_player\<lparr>info := (info sample_player)\<lparr>fps := 0\<rparr>\<rparr>)) = 0
   \<and> video_player_get_position_sec
         (Some (sample_player\<lparr>info := (info sample_player)\<lparr>fps := 0\<rparr>\<rparr>)) = Some 0
   \<and> video_player_get_position_sec (Some sample_player) \<noteq> None"
  using video_player_queries_total by simp

section \<open>Decode stage\<close>

text \<open>
  Claim C3, as stated, at the stub build: the 640 x 480 frame exceeds the 320 x 240
  decoder, and \<^verbatim>\<open>mjpeg_decoder_decode_frame\<close> returns \<^verbatim>\<open>ESP_ERR_NOT_SUPPORTED\<close>, not
  \<^verbatim>\<open>ESP_ERR_INVALID_SIZE\<close>.
\<close>

theorem decode_frame_stub_not_supported:
  "jpeg_decoder_get_info stub_lib sample_frame = (ESP_OK, 640, 480)
   \<and> 640 > max_width sample_decoder
   \<and> mjpeg_decoder_decode_frame stub_lib 0 1000 (Some sample_decoder) (Some sample_frame)
        (Some (buffer sample_fb)) (Some 0) (Some 0)
      = (ESP_ERR_NOT_SUPPORTED, Some sample_decoder, Some (buffer sample_fb), Some 0, Some 0)
   \<and> fst (mjpeg_decoder_decode_frame stub_lib 0 1000 (Some sample_decoder) (Some sample_frame)
        (Some (buffer sample_fb)) (Some 0) (Some 0)) \<noteq> ESP_ERR_INVALID_SIZE"
  by (simp add: mjpeg_decoder_decode_frame_def stub_lib_def sample_decoder_def)

text \<open>
  Claim C3, amended.  For non-NULL arguments and a frame whose header dimensions exceed
  the decoder's maximum width or height, \<^verbatim>\<open>mjpeg_decoder_decode_frame\<close> returns
  \<^verbatim>\<open>ESP_ERR_INVALID_SIZE\<close> when the JPEG component is compiled in and
  \<^verbatim>\<open>ESP_ERR_NOT_SUPPORTED\<close> in the stub build; in both builds the pixel array, the
  decoder and the out-parameters are exactly as they were.  The function receives only
  the pixel array of a frame buffer, never the record with the readiness flag.
\<close>

theorem decode_frame_oversize:
  assumes "jpeg_decoder_get_info lib fr = (ESP_OK, w, h)"
    and "w > max_width d \<or> h > max_height d"
  shows "mjpeg_decoder_decode_frame lib t0 t1 (Some d) (Some fr) (Some (buffer fb)) ow oh
           = (if has_esp_jpeg lib then ESP_ERR_INVALID_SIZE else ESP_ERR_NOT_SUPPORTED,
              Some d, Some (buffer fb), ow, oh)"
  using assms by (simp add: mjpeg_decoder_decode_frame_def)

theorem decode_frame_oversize_witness:
  "jpeg_decoder_get_info sample_lib sample_frame = (ESP_OK, 640, 480)
   \<and> (640 > max_width sample_decoder \<or> 480 > max_height sample_decoder)
   \<and> has_esp_jpeg sample_lib
   \<and> mjpeg_decoder_decode_frame sample_lib 0 1000 (Some sample_decoder) (Some sample_frame)
        (Some (buffer sample_fb)) (Some 0) (Some 0)
      = (ESP_ERR_INVALID_SIZE, Some sample_decoder, Some (buffer sample_fb), Some 0, Some 0)"
proof -
  have a: "has_esp_jpeg sample_lib" by (simp add: sample_lib_def)
  have b: "jpeg_decoder_get_info sample_lib sample_frame = (ESP_OK, 640, 480)"
    by (simp add: sample_lib_def)
  have c: "640 > max_width sample_decoder \<or> 480 > max_height sample_decoder"
    by (simp add: sample_decoder_def)
  show ?thesis
    using a b c decode_frame_oversize [OF b c, of 0 1000 sample_fb "Some 0" "Some 0"]
    by simp
qed

section \<open>Audio feed\<close>

lemma apply_volume_full: "apply_volume samples count 100 = samples"
  by (simp add: apply_volume_def)

text \<open>
  Claim C7.  The sample \<open>-1000\<close> at volume 50: the scale is \<open>32768\<close> and the scaled
  sample would be \<open>-500\<close>, but \<^verbatim>\<open>apply_volume\<close> multiplies in \<^verbatim>\<open>uint32_t\<close>, shifts
  logically and clamps the large positive result, so the sample handed to the I2S channel
  is \<open>32767\<close> (bytes \<open>FF 7F\<close> for the input bytes \<open>18 FC\<close>).
\<close>

theorem apply_volume_negative_sample:
  "map sint (apply_volume [- 1000] 1 50) = [32767]
   \<and> (- 1000 * ((50 * 65536) div 100)) div 65536 = (- 500 :: int)
   \<and> audio_player_write (\<lambda>_. True) ESP_OK (Some sample_audio_player) (Some [0x18, 0xFC])
       = (ESP_OK, Some [0xFF, 0x7F])"
  by (simp add: apply_volume_def scale_sample_def audio_player_write_def
        sample_audio_player_def bytes_of_samples_def le16_def)

section \<open>Demuxer: opening a container\<close>

lemma le32_bytes:
  "ucast (le32 [a, b, c, d]) = a"
  "ucast (drop_bit 8 (le32 [a, b, c, d])) = b"
  "ucast (drop_bit 16 (le32 [a, b, c, d])) = c"
  "ucast (drop_bit 24 (le32 [a, b, c, d])) = d"
  by (rule bit_word_eqI; auto simp: le32_def bit_simps dest: bit_imp_le_length)+

lemma le32_eq_RIFF:
  assumes "le32 [a, b, c, d] = FOURCC_RIFF"
  shows "[a, b, c, d] = [0x52, 0x49, 0x46, 0x46]"
proof -
  have "a = ucast FOURCC_RIFF" "b = ucast (drop_bit 8 FOURCC_RIFF)"
    "c = ucast (drop_bit 16 FOURCC_RIFF)" "d = ucast (drop_bit 24 FOURCC_RIFF)"
    using le32_bytes [of a b c d] assms by simp_all
  then show ?thesis by (simp add: FOURCC_RIFF_def)
qed

lemma le32_eq_AVI:
  assumes "le32 [a, b, c, d] = FOURCC_AVI"
  shows "[a, b, c, d] = [0x41, 0x56, 0x49, 0x20]"
proof -
  have "a = ucast FOURCC_AVI" "b = ucast (drop_bit 8 FOURCC_AVI)"
    "c = ucast (drop_bit 16 FOURCC_AVI)" "d = ucast (drop_bit 24 FOURCC_AVI)"
    using le32_bytes [of a b c d] assms by simp_all
  then show ?thesis by (simp add: FOURCC_AVI_def)
qed

lemma length4_cases: "length xs = 4 \<Longrightarrow> \<exists>a b c d. xs = [a, b, c, d]"
  by (cases xs; simp; rename_tac x ys; case_tac ys; simp; rename_tac y zs; case_tac zs; simp;
      rename_tac z ws; case_tac ws; simp)

lemma read_le32_simps:
  "fst (read_le32 f) =
     (if length (take 4 (drop (pos f) (bytes f))) = 4
      then le32 (take 4 (drop (pos f) (bytes f))) else 0)"
  "bytes (snd (read_le32 f)) = bytes f"
  "pos (snd (read_le32 f)) = pos f + length (take 4 (drop (pos f) (bytes f)))"
  by (simp_all add: read_le32_def fread_def Let_def)

lemma read_le32_RIFF:
  assumes "fst (read_le32 f) = FOURCC_RIFF"
  shows "take 4 (drop (pos f) (bytes f)) = [0x52, 0x49, 0x46, 0x46]"
proof -
  let ?xs = "take 4 (drop (pos f) (bytes f))"
  have len: "length ?xs = 4"
    using assms by (auto simp: read_le32_simps FOURCC_RIFF_def split: if_splits)
  then obtain a b c d where xs: "?xs = [a, b, c, d]"
    using length4_cases by blast
  have "le32 [a, b, c, d] = FOURCC_RIFF"
    using assms len xs by (simp add: read_le32_simps)
  from le32_eq_RIFF [OF this] show ?thesis using xs by simp
qed

lemma read_le32_AVI:
  assumes "fst (read_le32 f) = FOURCC_AVI"
  shows "take 4 (drop (pos f) (bytes f)) = [0x41, 0x56, 0x49, 0x20]"
proof -
  let ?xs = "take 4 (drop (pos f) (bytes f))"
  have len: "length ?xs = 4"
    using assms by (auto simp: read_le32_simps FOURCC_AVI_def split: if_splits)
  then obtain a b c d where xs: "?xs = [a, b, c, d]"
    using length4_cases by blast
  have "le32 [a, b, c, d] = FOURCC_AVI"
    using assms len xs by (simp add: read_le32_simps)
  from le32_eq_AVI [OF this] show ?thesis using xs by simp
qed

lemma parse_avi_header_bad_signature:
  assumes "take 4 bs \<noteq> [0x52, 0x49, 0x46, 0x46] \<or> take 4 (drop 8 bs) \<noteq> [0x41, 0x56, 0x49, 0x20]"
  shows "\<exists>f'. parse_avi_header fuel p \<lparr>bytes = bs, pos = 0, eof = False\<rparr>
                = Some (ESP_ERR_INVALID_ARG, p, f')"
proof -
  let ?f0 = "\<lparr>bytes = bs, pos = 0, eof = False\<rparr>"
  let ?f1 = "snd (read_le32 ?f0)"
  let ?f2 = "snd (read_le32 ?f1)"
  show ?thesis
  proof (cases "fst (read_le32 ?f0) = FOURCC_RIFF")
    case False
    then show ?thesis
      by (simp add: parse_avi_header_def read_fourcc_def split_beta)
  next
    case True
    from read_le32_RIFF [OF True] have riff: "take 4 bs = [0x52, 0x49, 0x46, 0x46]" by simp
    then have "length (take 4 bs) = 4" by simp
    then have len4: "4 \<le> length bs" by simp
    have notavi: "fst (read_le32 ?f2) \<noteq> FOURCC_AVI"
    proof
      assume eq: "fst (read_le32 ?f2) = FOURCC_AVI"
      from read_le32_AVI [OF eq]
      have t: "take 4 (drop (pos ?f2) bs) = [0x41, 0x56, 0x49, 0x20]"
        by (simp add: read_le32_simps)
      have p1: "pos ?f1 = 4" using len4 by (simp add: read_le32_simps)
      have "pos ?f2 = 8"
      proof (rule ccontr)
        assume "pos ?f2 \<noteq> 8"
        then have "length bs < 8" using p1 len4 by (simp add: read_le32_simps)
        then have "pos ?f2 = length bs" using p1 len4 by (simp add: read_le32_simps)
        then show False using t by simp
      qed
      then show False using t assms riff by simp
    qed
    show ?thesis using True notavi
      by (simp add: parse_avi_header_def read_fourcc_def split_beta)
  qed
qed

text \<open>
  Claim C5.  For an existing file whose first four bytes are not \<^verbatim>\<open>RIFF\<close> or whose bytes
  8 to 11 are not \<^verbatim>\<open>AVI \<close> (a file too short to hold them included),
  \<^verbatim>\<open>avi_parser_open\<close> returns \<^verbatim>\<open>ESP_ERR_INVALID_ARG\<close>, the code's error for a bad
  signature, and leaves the zeroed parser: no stream, not initialized.  Reading a video
  frame, reading an audio chunk and seeking on it are rejected with
  \<^verbatim>\<open>ESP_ERR_INVALID_ARG\<close> and change nothing.
\<close>

theorem avi_parser_open_bad_signature:
  assumes "fs name = Some bs"
    and "take 4 bs \<noteq> [0x52, 0x49, 0x46, 0x46] \<or> take 4 (drop 8 bs) \<noteq> [0x41, 0x56, 0x49, 0x20]"
  shows "\<exists>p'. avi_parser_open fuel fs (Some p) (Some name) = Some (ESP_ERR_INVALID_ARG, Some p')
           \<and> file_ptr p' = None \<and> \<not> avi_parser.initialized p'
           \<and> avi_parser_read_video_frame k alloc (Some p') (Some fr)
               = Some (ESP_ERR_INVALID_ARG, Some p', Some fr)
           \<and> avi_parser_read_audio_chunk k (Some p') (Some buf) max_size n
               = Some (ESP_ERR_INVALID_ARG, Some p', Some buf, n)
           \<and> avi_parser_seek k alloc (Some p') target = Some (ESP_ERR_INVALID_ARG, Some p')"
proof -
  from parse_avi_header_bad_signature [OF assms(2), of fuel zero_parser]
  obtain f' where h: "parse_avi_header fuel zero_parser \<lparr>bytes = bs, pos = 0, eof = False\<rparr>
                        = Some (ESP_ERR_INVALID_ARG, zero_parser, f')"
    by blast
  have z: "zero_parser\<lparr>file_ptr := None\<rparr> = zero_parser"
    by (simp add: zero_parser_def)
  have o: "avi_parser_open fuel fs (Some p) (Some name)
             = Some (ESP_ERR_INVALID_ARG, Some zero_parser)"
    using assms(1) h z by (simp add: avi_parser_open_def fopen_def)
  have i: "file_ptr zero_parser = None" "\<not> avi_parser.initialized zero_parser"
    by (simp_all add: zero_parser_def)
  show ?thesis
    using o i
    by (simp add: avi_parser_read_video_frame_def avi_parser_read_audio_chunk_def
          avi_parser_seek_def)
qed

theorem avi_parser_open_bad_signature_witness:
  "sample_fs ''/sdcard/a.wav'' = Some wave_file
   \<and> take 4 (drop 8 wave_file) \<noteq> [0x41, 0x56, 0x49, 0x20]
   \<and> (\<exists>p'. avi_parser_open 20 sample_fs (Some opened_two_frame) (Some ''/sdcard/a.wav'')
             = Some (ESP_ERR_INVALID_ARG, Some p')
           \<and> file_ptr p' = None \<and> \<not> avi_parser.initialized p'
           \<and> avi_parser_read_video_frame 20 always_alloc (Some p') (Some temp_frame)
               = Some (ESP_ERR_INVALID_ARG, Some p', Some temp_frame))"
proof -
  have a: "sample_fs ''/sdcard/a.wav'' = Some wave_file"
    by (simp add: sample_fs_def)
  have b: "take 4 wave_file \<noteq> [0x52, 0x49, 0x46, 0x46]
           \<or> take 4 (drop 8 wave_file) \<noteq> [0x41, 0x56, 0x49, 0x20]"
    by (simp add: wave_file_def)
  have c: "take 4 (drop 8 wave_file) \<noteq> [0x41, 0x56, 0x49, 0x20]"
    by (simp add: wave_file_def)
  from avi_parser_open_bad_signature
         [where fs = sample_fs and name = "''/sdcard/a.wav''" and bs = wave_file
            and fuel = 20 and p = opened_two_frame and k = 20 and alloc = always_alloc
            and fr = temp_frame, OF a b]
  show ?thesis using a c by blast
qed

section \<open>Demuxer: video chunks\<close>

text \<open>
  Claim C1.  A standard container holds its video frames in chunks tagged \<^verbatim>\<open>00dc\<close>,
  which \<^verbatim>\<open>read_fourcc\<close> delivers as \<^verbatim>\<open>0x63643030\<close>.  The test
  \<^verbatim>\<open>(fourcc & 0xFFFF) == 0x6364\<close> looks at the first two characters of the tag instead of
  the last two, so no chunk of such a container counts as video.  On the two-frame
  container (frame count 2): open succeeds, \<^verbatim>\<open>avi_parser_seek\<close> to frame 0 succeeds and
  leaves the parser at the payload start, the read that follows returns
  \<^verbatim>\<open>ESP_ERR_NOT_FOUND\<close> instead of frame 0, and seeking to frame 1 fails.  Where a seek and
  the read after it both succeed the frame index is the seek target
  (\<open>seek_then_read_frame_num\<close> below).
\<close>

theorem standard_container_read_not_found:
  "avi_parser_open 20 sample_fs (Some zero_parser) (Some ''/sdcard/two.avi'')
     = Some (ESP_OK, Some opened_two_frame)
   \<and> avi_parser_get_total_frames (Some opened_two_frame) = 2
   \<and> avi_parser_seek 20 always_alloc (Some opened_two_frame) 0
       = Some (ESP_OK, Some opened_two_frame)
   \<and> map_option fst
         (avi_parser_read_video_frame 20 always_alloc (Some opened_two_frame) (Some temp_frame))
       = Some ESP_ERR_NOT_FOUND
   \<and> map_option fst (avi_parser_seek 20 always_alloc (Some opened_two_frame) 1)
       = Some ESP_FAIL"
proof -
  have a: "avi_parser_open 20 sample_fs (Some zero_parser) (Some ''/sdcard/two.avi'')
             = Some (ESP_OK, Some opened_two_frame)"
    by (simp add: sample_fs_def two_frame_avi_bytes stream_eval header_eval loop_eval
          fourcc_defs opened_two_frame_def zero_parser_def)
  have b: "avi_parser_get_total_frames (Some opened_two_frame) = 2"
    by (simp add: avi_parser_get_total_frames_def opened_two_frame_def zero_parser_def)
  have c: "avi_parser_seek 20 always_alloc (Some opened_two_frame) 0
             = Some (ESP_OK, Some opened_two_frame)"
    by (simp add: reader_eval two_frame_avi_bytes stream_eval loop_eval
          opened_two_frame_def zero_parser_def)
  have d: "map_option fst
             (avi_parser_read_video_frame 20 always_alloc (Some opened_two_frame)
                (Some temp_frame)) = Some ESP_ERR_NOT_FOUND"
    by (simp add: reader_eval two_frame_avi_bytes stream_eval loop_eval
          opened_two_frame_def zero_parser_def)
  have e: "map_option fst (avi_parser_seek 20 always_alloc (Some opened_two_frame) 1)
             = Some ESP_FAIL"
    by (simp add: reader_eval two_frame_avi_bytes stream_eval loop_eval
          opened_two_frame_def zero_parser_def)
  show ?thesis using a b c d e by blast
qed

text \<open>What a successful read returns, and where a successful seek leaves the parser.\<close>

lemma read_video_loop_ok:
  "read_video_loop k alloc p f fr = Some (ESP_OK, p', fr')
     \<Longrightarrow> frame_num fr' = avi_parser.current_frame p
         \<and> avi_parser.current_frame p' = avi_parser.current_frame p + 1
         \<and> timestamp_ms fr'
             = (avi_parser.current_frame p * micro_sec_per_frame (main_header p)) div 1000
         \<and> main_header p' = main_header p
         \<and> avi_parser.initialized p' = avi_parser.initialized p"
proof (induction k arbitrary: f)
  case 0
  then show ?case by simp
next
  case (Suc k)
  let ?f1 = "snd (read_fourcc f)"
  let ?f2 = "snd (read_le32 ?f1)"
  let ?sz = "fst (read_le32 ?f1)"
  show ?case
  proof (cases "fst (read_fourcc f) AND 0xFFFF = 0x6364 \<or> fst (read_fourcc f) AND 0xFFFF = 0x6264")
    case True
    with Suc.prems show ?thesis
      by (auto simp: read_video_loop.simps(2) [unfolded Let_def split_beta]
            simp del: read_video_loop.simps split: if_splits)
  next
    case False
    with Suc.prems
    have "read_video_loop k alloc p (skip_pad (fseek_cur ?f2 (sint ?sz)) ?sz) fr
            = Some (ESP_OK, p', fr')"
      by (auto simp: read_video_loop.simps(2) [unfolded Let_def split_beta]
            simp del: read_video_loop.simps split: if_splits)
    then show ?thesis by (rule Suc.IH)
  qed
qed

lemma read_video_frame_ok:
  assumes "avi_parser_read_video_frame k alloc (Some p) (Some fr) = Some (ESP_OK, Some p', Some fr')"
  shows "frame_num fr' = avi_parser.current_frame p
         \<and> avi_parser.current_frame p' = avi_parser.current_frame p + 1
         \<and> timestamp_ms fr'
             = (avi_parser.current_frame p * micro_sec_per_frame (main_header p)) div 1000
         \<and> main_header p' = main_header p
         \<and> avi_parser.initialized p' = avi_parser.initialized p"
proof -
  from assms obtain f where "read_video_loop k alloc p f fr = Some (ESP_OK, p', fr')"
    by (auto simp: avi_parser_read_video_frame_def split: if_splits option.splits)
  then show ?thesis by (rule read_video_loop_ok)
qed

lemma seek_loop_ok:
  "seek_loop k alloc p n = Some (ESP_OK, p') \<Longrightarrow> avi_parser.current_frame p \<le> n
     \<Longrightarrow> avi_parser.current_frame p' = n"
proof (induction k arbitrary: p)
  case 0
  then show ?case by simp
next
  case (Suc k)
  show ?case
  proof (cases "avi_parser.current_frame p < n")
    case False
    with Suc.prems show ?thesis by simp
  next
    case True
    with Suc.prems(1) obtain p1 fr1 where
      r: "avi_parser_read_video_frame k alloc (Some p) (Some temp_frame)
            = Some (ESP_OK, Some p1, fr1)"
      and s: "seek_loop k alloc p1 n = Some (ESP_OK, p')"
      by (auto split: option.splits if_splits)
    from r obtain fr' where "fr1 = Some fr'"
      by (auto simp: avi_parser_read_video_frame_def split: if_splits option.splits)
    with r read_video_frame_ok
    have "avi_parser.current_frame p1 = avi_parser.current_frame p + 1" by blast
    with True have "avi_parser.current_frame p1 \<le> n" by (simp add: inc_le)
    with s show ?thesis by (rule Suc.IH)
  qed
qed

lemma seek_then_read_frame_num:
  assumes "avi_parser_seek k alloc (Some p) n = Some (ESP_OK, Some p1)"
    and "avi_parser_read_video_frame k' alloc' (Some p1) (Some fr) = Some (ESP_OK, Some p2, Some fr')"
  shows "frame_num fr' = n"
proof -
  from assms(1) obtain f where
    "seek_loop k alloc (p\<lparr>file_ptr := Some f, avi_parser.current_frame := 0\<rparr>) n
       = Some (ESP_OK, p1)"
    by (auto simp: avi_parser_seek_def split: if_splits option.splits)
  then have "avi_parser.current_frame p1 = n"
    by (rule seek_loop_ok) simp
  with read_video_frame_ok [OF assms(2)] show ?thesis by simp
qed

lemma consecutive_reads_frame_num:
  assumes "avi_parser_read_video_frame k alloc (Some p) (Some fr) = Some (ESP_OK, Some p1, Some fr1)"
    and "avi_parser_read_video_frame k' alloc' (Some p1) (Some fr0) = Some (ESP_OK, Some p2, Some fr2)"
  shows "frame_num fr2 = frame_num fr1 + 1"
  using read_video_frame_ok [OF assms(1)] read_video_frame_ok [OF assms(2)] by simp

lemma timestamp_word_mono:
  fixes c m :: u32
  assumes "(unat c + 1) * unat m < 2 ^ 32"
  shows "(c * m) div 1000 \<le> ((c + 1) * m) div 1000"
proof (cases "m = 0")
  case True
  then show ?thesis by simp
next
  case False
  then have mpos: "0 < unat m" by (simp add: unat_gt_0)
  have "(unat c + 1) * 1 \<le> (unat c + 1) * unat m"
    using mpos by (intro mult_le_mono2) simp
  then have "unat c + 1 \<le> (unat c + 1) * unat m" by simp
  with assms have c1: "unat c + 1 < 2 ^ 32" by linarith
  have u1: "unat (c + 1) = unat c + 1"
    using c1 by (simp add: unat_word_ariths)
  have "unat c * unat m \<le> (unat c + 1) * unat m" by simp
  with assms have cm: "unat c * unat m < 2 ^ 32" by linarith
  have a: "unat (c * m) = unat c * unat m"
    using cm by (simp add: unat_word_ariths)
  have b: "unat ((c + 1) * m) = (unat c + 1) * unat m"
    using assms u1 by (simp add: unat_word_ariths)
  have "unat ((c * m) div 1000) \<le> unat (((c + 1) * m) div 1000)"
    by (simp add: unat_div a b div_le_mono)
  then show ?thesis by (simp add: word_le_nat_alt)
qed

lemma consecutive_reads_timestamp:
  assumes "avi_parser_read_video_frame k alloc (Some p) (Some fr) = Some (ESP_OK, Some p1, Some fr1)"
    and "avi_parser_read_video_frame k' alloc' (Some p1) (Some fr0) = Some (ESP_OK, Some p2, Some fr2)"
    and "(unat (frame_num fr1) + 1) * unat (micro_sec_per_frame (main_header p)) < 2 ^ 32"
  shows "timestamp_ms fr1 \<le> timestamp_ms fr2"
  using read_video_frame_ok [OF assms(1)] read_video_frame_ok [OF assms(2)] assms(3)
    timestamp_word_mono [of "avi_parser.current_frame p" "micro_sec_per_frame (main_header p)"]
  by simp

lemma stream_bytes [simp]:
  "bytes (fseek_cur f off) = bytes f"
  "bytes (fseek_set f off) = bytes f"
  "bytes (snd (fread f n)) = bytes f"
  "bytes (snd (read_le32 f)) = bytes f"
  "bytes (snd (read_le16 f)) = bytes f"
  "bytes (snd (read_fourcc f)) = bytes f"
  "bytes (skip_pad f sz) = bytes f"
  by (simp_all add: fseek_cur_def fseek_set_def fread_def read_le32_def read_le16_def
        read_fourcc_def skip_pad_def Let_def)

lemma parse_chunk_bytes [simp]:
  "bytes (snd (parse_avih p f sz)) = bytes f"
  "bytes (snd (parse_strh p f sz)) = bytes f"
  "bytes (snd (parse_strf_video p f sz)) = bytes f"
  "bytes (snd (parse_strf_audio p f sz)) = bytes f"
  by (simp_all add: header_eval(1-4))





section \<open>Playback controller: opening\<close>

lemma floor_rat_numeral: "\<lfloor>(numeral a :: rat) / numeral b\<rfloor> = numeral a div numeral b"
  using floor_divide_of_int_eq [of "numeral a" "numeral b", where ?'a = rat] by simp

lemma ceiling_rat_numeral:
  "\<lceil>(numeral a :: rat) / numeral b\<rceil> = - ((- numeral a) div numeral b)"
  using ceiling_divide_eq_div [of "numeral a" "numeral b", where ?'a = rat] by simp

lemmas f32_eval = f32_round_def f32_exponent_def round_half_even_def float_to_u16_def
  compute_floorlog floor_rat_numeral ceiling_rat_numeral Let_def

lemma f32_fps_66667: "float_to_u16 (f32_round (1000000 / f32_round 66667)) = Some 14"
  by (simp add: f32_eval)

lemma get_fps_66667:
  assumes "micro_sec_per_frame (main_header ap) = 66667"
  shows "float_to_u16 (avi_parser_get_fps (Some ap)) = Some 14"
  using assms by (simp add: avi_parser_get_fps_def f32_fps_66667)

lemma open_fps15:
  "avi_parser_open 20 sample_fs (Some p) (Some ''/sdcard/ep1.avi'')
     = Some (ESP_OK, Some opened_fps15)"
  by (simp add: sample_fs_def fps15_avi_bytes stream_eval header_eval loop_eval
        fourcc_defs opened_fps15_def zero_parser_def)

lemma opened_fps15_fields:
  "micro_sec_per_frame (main_header opened_fps15) = 66667"
  "avi_parser.total_frames opened_fps15 = 150"
  "avi_video_info.width (video_info opened_fps15) = 0"
  "avi_video_info.height (video_info opened_fps15) = 0"
  by (simp_all add: opened_fps15_def zero_parser_def)

text \<open>
  Claim C6.  The fixture container declares 66667 microseconds per frame and 150 frames.
  \<^verbatim>\<open>video_player_open\<close> succeeds on it and \<^verbatim>\<open>video_player_get_info\<close> reports the frame
  count 150 and the duration 10, but the fps 14: the float quotient
  \<open>1000000 / 66667\<close> is just below 15 and the cast to \<^verbatim>\<open>uint16_t\<close> truncates it.  The
  frame time derived from it is 71428 microseconds instead of 66667.
\<close>

theorem video_player_open_fps_truncated:
  "map_option fst (video_player_open 20 sample_fs (Some fresh_player) (Some ''/sdcard/ep1.avi''))
     = Some ESP_OK
   \<and> map_option (map_option (\<lambda>pl. (micro_sec_per_frame (main_header (avi_parser pl)),
                                     fps (info pl), frame_count (info pl),
                                     duration_sec (info pl), frame_time_us pl)) \<circ> snd)
         (video_player_open 20 sample_fs (Some fresh_player) (Some ''/sdcard/ep1.avi''))
       = Some (Some (66667, 14, 150, 10, 71428))"
proof -
  have c: "video_player_close (Some fresh_player) = Some fresh_player"
    by (simp add: video_player_close_def avi_parser_close_def fresh_player_def zero_parser_def)
  show ?thesis
    by (simp add: video_player_open_def [unfolded Let_def split_beta] c open_fps15
          get_fps_66667 opened_fps15_fields avi_parser_get_total_frames_def c_udiv_def)
qed





section \<open>Demuxer: audio chunks\<close>

lemma giant_audio_avi_bytes:
  "giant_audio_avi =
     [82, 73, 70, 70, 124, 0, 0, 0, 65, 86, 73, 32, 76, 73, 83, 84,
      68, 0, 0, 0, 104, 100, 114, 108, 97, 118, 105, 104, 56, 0, 0, 0,
      107, 4, 1, 0, 0, 0, 0, 0, 0, 0, 0, 0, 16, 0, 0, 0, 1, 0, 0, 0,
      0, 0, 0, 0, 1, 0, 0, 0, 0, 0, 0, 0, 240, 0, 0, 0, 240, 0, 0, 0,
      0, 0, 0, 0, 0, 0, 0, 0, 0, 0, 0, 0, 0, 0, 0, 0, 76, 73, 83, 84,
      36, 0, 0, 0, 109, 111, 118, 105, 119, 98, 48, 49, 16, 0, 0, 128,
      1, 2, 3, 4, 5, 6, 7, 8, 9, 10, 11, 12, 13, 14, 15, 16, 17, 18,
      19, 20, 21, 22, 23, 24]"
  by (simp add: giant_audio_avi_def file_defs tag_wb01_def Let_def)

lemma store_bytes_bounded:
  assumes "length got \<le> n"
  shows "drop n (store_bytes buf got) = drop n buf"
    and "n \<le> length buf \<Longrightarrow> length (store_bytes buf got) = length buf"
  using assms by (simp_all add: store_bytes_def)

lemma read_audio_loop_buffer:
  "read_audio_loop k p f buf m br = Some (ret, p', buf', br')
     \<Longrightarrow> \<exists>got. length got \<le> unat m \<and> buf' = store_bytes buf got"
proof (induction k arbitrary: f)
  case 0
  then show ?case by simp
next
  case (Suc k)
  let ?f1 = "snd (read_fourcc f)"
  let ?f2 = "snd (read_le32 ?f1)"
  let ?sz = "fst (read_le32 ?f1)"
  have unchanged: "\<exists>got. length got \<le> unat m \<and> buf = store_bytes buf got"
    by (rule exI [of _ "[]"]) (simp add: store_bytes_def)
  show ?case
  proof (cases "feof f \<or> feof ?f1")
    case True
    with Suc.prems unchanged show ?thesis
      by (auto simp: read_audio_loop.simps(2) [unfolded Let_def split_beta]
            simp del: read_audio_loop.simps split: if_splits)
  next
    case False
    show ?thesis
    proof (cases "fst (read_fourcc f) AND 0xFFFF = 0x6277")
      case False
      with \<open>\<not> (feof f \<or> feof ?f1)\<close> Suc.prems
      have "read_audio_loop k p (skip_pad (fseek_cur ?f2 (sint ?sz)) ?sz) buf m br
              = Some (ret, p', buf', br')"
        by (simp add: read_audio_loop.simps(2) [unfolded Let_def split_beta]
              del: read_audio_loop.simps)
      then show ?thesis by (rule Suc.IH)
    next
      case True
      let ?n = "unat (if ?sz < m then ?sz else m)"
      let ?got = "fst (fread ?f2 ?n)"
      from True \<open>\<not> (feof f \<or> feof ?f1)\<close> Suc.prems
      have b: "buf' = store_bytes buf ?got"
        by (simp add: read_audio_loop.simps(2) [unfolded Let_def split_beta]
              del: read_audio_loop.simps)
      have "length ?got \<le> ?n" by (simp add: fread_def Let_def)
      moreover have "?n \<le> unat m" by (simp add: word_le_nat_alt word_less_nat_alt)
      ultimately show ?thesis using b by (intro exI [of _ ?got]) simp
    qed
  qed
qed

lemma read_audio_chunk_buffer_bounded:
  assumes "avi_parser_read_audio_chunk k parser (Some buf) m br
             = Some (ret, parser', Some buf', br')"
  shows "drop (unat m) buf' = drop (unat m) buf
         \<and> (unat m \<le> length buf \<longrightarrow> length buf' = length buf)"
proof -
  have "\<exists>got. length got \<le> unat m \<and> buf' = store_bytes buf got"
  proof (cases "\<exists>p f. parser = Some p \<and> avi_parser.initialized p \<and> file_ptr p = Some f")
    case True
    then obtain p f where "parser = Some p" "avi_parser.initialized p" "file_ptr p = Some f"
      by blast
    with assms obtain r q n where "read_audio_loop k p f buf m br = Some (r, q, buf', n)"
      by (auto simp: avi_parser_read_audio_chunk_def split: option.splits)
    then show ?thesis by (rule read_audio_loop_buffer)
  next
    case False
    with assms have "buf' = buf"
      by (auto simp: avi_parser_read_audio_chunk_def split: option.splits if_splits)
    then show ?thesis by (intro exI [of _ "[]"]) (simp add: store_bytes_def)
  qed
  then show ?thesis using store_bytes_bounded by auto
qed

text \<open>
  Claim C4.  The container holds an audio chunk that declares the size \<open>0x80000010\<close>;
  the caller's buffer takes 16 bytes.  \<^verbatim>\<open>avi_parser_read_audio_chunk\<close> writes 16 bytes
  and no more, but the remainder is not skipped: \<^verbatim>\<open>size - max_size\<close> is
  \<open>0x80000000\<close>, which as the \<^verbatim>\<open>long\<close> offset of \<^verbatim>\<open>fseek\<close> on the 32-bit target is
  negative, the seek fails, and the stream stays at offset 124, right behind the 16 bytes
  that were read.
\<close>

theorem read_audio_chunk_giant_not_skipped:
  "avi_parser_open 20 giant_fs (Some zero_parser) (Some ''/sdcard/giant.avi'')
     = Some (ESP_OK, Some opened_giant)
   \<and> avi_parser_read_audio_chunk 20 (Some opened_giant) (Some zero_buffer16) 16 (Some 0)
       = Some (ESP_OK,
           Some (opened_giant\<lparr>file_ptr :=
                   Some \<lparr>bytes = giant_audio_avi, pos = 124, eof = False\<rparr>\<rparr>),
           Some [1, 2, 3, 4, 5, 6, 7, 8, 9, 10, 11, 12, 13, 14, 15, 16], Some 16)
   \<and> sint (0x80000010 - 16 :: u32) = - 2147483648"
proof -
  have a: "avi_parser_open 20 giant_fs (Some zero_parser) (Some ''/sdcard/giant.avi'')
             = Some (ESP_OK, Some opened_giant)"
    by (simp add: giant_fs_def giant_audio_avi_bytes stream_eval header_eval loop_eval
          fourcc_defs opened_giant_def zero_parser_def)
  have b: "avi_parser_read_audio_chunk 20 (Some opened_giant) (Some zero_buffer16) 16 (Some 0)
             = Some (ESP_OK,
                 Some (opened_giant\<lparr>file_ptr :=
                         Some \<lparr>bytes = giant_audio_avi, pos = 124, eof = False\<rparr>\<rparr>),
                 Some [1, 2, 3, 4, 5, 6, 7, 8, 9, 10, 11, 12, 13, 14, 15, 16], Some 16)"
    by (simp add: reader_eval giant_audio_avi_bytes stream_eval loop_eval
          opened_giant_def zero_parser_def zero_buffer16_def)
  have c: "sint (0x80000010 - 16 :: u32) = - 2147483648"
    by simp
  show ?thesis using a b c by blast
qed

section \<open>Demuxer: frame indices and timestamps\<close>

lemma slideshow_avi_bytes:
  "slideshow_avi =
     [82, 73, 70, 70, 132, 0, 0, 0, 65, 86, 73, 32, 76, 73, 83, 84,
      68, 0, 0, 0, 104, 100, 114, 108, 97, 118, 105, 104, 56, 0, 0, 0,
      0, 210, 73, 107, 0, 0, 0, 0, 0, 0, 0, 0, 16, 0, 0, 0, 4, 0, 0,
      0, 0, 0, 0, 0, 1, 0, 0, 0, 0, 0, 0, 0, 240, 0, 0, 0, 240, 0, 0,
      0, 0, 0, 0, 0, 0, 0, 0, 0, 0, 0, 0, 0, 0, 0, 0, 0, 76, 73, 83,
      84, 44, 0, 0, 0, 109, 111, 118, 105, 100, 99, 48, 48, 2, 0, 0,
      0, 255, 216, 100, 99, 48, 48, 2, 0, 0, 0, 255, 216, 100, 99, 48,
      48, 2, 0, 0, 0, 255, 216, 100, 99, 48, 48, 2, 0, 0, 0, 255,
      216]"
  by (simp add: slideshow_avi_def file_defs tag_dc00_def Let_def)

lemmas read_frames_eval =
  read_frames.simps(1)
  read_frames.simps(2) [of "pred_numeral n", unfolded split_beta, folded numeral_eq_Suc]
  for n

text \<open>
  Claim C2.  Four consecutive successful reads on the slide show (frames 30 minutes
  apart) return the frame indices 0, 1, 2, 3 and the timestamps 0, 1800000, 3600000 and
  1105032 milliseconds: the product \<^verbatim>\<open>current_frame * micro_sec_per_frame\<close> is taken in
  \<^verbatim>\<open>uint32_t\<close> and wraps at \<open>2 ^ 32\<close> microseconds, about 71.6 minutes.  At 15 fps the same
  happens between the frames 64424 and 64425, where the timestamp falls from 4294954 to 54.
\<close>

theorem timestamp_wraps:
  "avi_parser_open 20 slides_fs (Some zero_parser) (Some ''/sdcard/slides.avi'')
     = Some (ESP_OK, Some opened_slideshow)
   \<and> read_frames 4 (Some opened_slideshow)
       = [(ESP_OK, 0, 0), (ESP_OK, 1, 1800000), (ESP_OK, 2, 3600000), (ESP_OK, 3, 1105032)]
   \<and> read_frames 2 (Some late_parser) = [(ESP_OK, 64424, 4294954), (ESP_OK, 64425, 54)]"
proof -
  have a: "avi_parser_open 20 slides_fs (Some zero_parser) (Some ''/sdcard/slides.avi'')
             = Some (ESP_OK, Some opened_slideshow)"
    by (simp add: slides_fs_def slideshow_avi_bytes stream_eval
          header_eval loop_eval fourcc_defs opened_slideshow_def zero_parser_def)
  have b: "read_frames 4 (Some opened_slideshow)
             = [(ESP_OK, 0, 0), (ESP_OK, 1, 1800000), (ESP_OK, 2, 3600000),
                (ESP_OK, 3, 1105032)]"
    by (simp add: read_frames_eval reader_eval slideshow_avi_bytes stream_eval loop_eval
          opened_slideshow_def zero_parser_def)
  have c: "read_frames 2 (Some late_parser) = [(ESP_OK, 64424, 4294954), (ESP_OK, 64425, 54)]"
    by (simp add: read_frames_eval reader_eval stream_eval loop_eval late_parser_def
          zero_parser_def riff_chunk_def u32_bytes_def tag_dc00_def)
  show ?thesis using a b c by blast
qed

end
